theory Spec2Isabelle
  imports Complex_Main "HOL-Library.AList" "HOL-Library.Multiset" "HOL-Library.Log_Nat"
begin

section \<open>JavaScript values\<close>

text \<open>
  The backend is an Express application. Every store helper of the route modules first
  calls the Mongoose model and, when that call throws, runs a fallback on a
  module-level \<open>Map\<close> (\<open>inMemoryUsers\<close>, \<open>inMemoryTasks\<close>). The Mongoose calls are
  library code on a database: each is a parameter of the helper that makes it, and a
  call either throws or returns. The helpers embed both branches. Strings are ASCII
  strings; \<open>new Date()\<close> is the argument \<open>now\<close> (milliseconds).
\<close>

datatype 'a attempt = Throws | Returns 'a

text \<open>
  An \<open>ObjectId\<close> is an object: \<open>oid_ref\<close> tells one object from another, \<open>oid_hex\<close> is
  the identifier it stands for. Mongoose builds a new object for every document it
  returns.
\<close>

datatype object_id = ObjectId (oid_ref: nat) (oid_hex: string)

datatype jsval = JNull | JBool bool | JNum int | JStr string | JDate int | JOid object_id

text \<open>A plain object: a property is absent (\<open>undefined\<close>) or has a value.\<close>

type_synonym obj = "string \<Rightarrow> jsval option"

datatype 'a nullable = Undefined | Null | Val 'a

fun truthy :: "jsval option \<Rightarrow> bool" where
  "truthy None = False"
| "truthy (Some JNull) = False"
| "truthy (Some (JBool b)) = b"
| "truthy (Some (JNum n)) = (n \<noteq> 0)"
| "truthy (Some (JStr s)) = (s \<noteq> [])"
| "truthy (Some (JDate d)) = True"
| "truthy (Some (JOid i)) = True"

text \<open>
  \<open>a == b\<close> on identifiers. Both operands are \<open>ObjectId\<close> objects: \<open>req.user.id\<close> is the
  \<open>_id\<close> of the document that \<open>User.findById\<close> returned to \<open>authenticate\<close>, and the
  \<open>user\<close> of a task in the map is the \<open>req.user.id\<close> of the request that created it. On
  two objects \<open>==\<close> is identity.
\<close>

definition loose_eq :: "object_id \<Rightarrow> object_id \<Rightarrow> bool" where
  "loose_eq a b = (oid_ref a = oid_ref b)"

subsection \<open>Strings\<close>

definition is_space :: "char \<Rightarrow> bool" where
  "is_space c = (c \<in> set [CHR '' '', CHR 0x09, CHR 0x0A, CHR 0x0B, CHR 0x0C, CHR 0x0D])"

definition trim :: "string \<Rightarrow> string" where
  "trim s = rev (dropWhile is_space (rev (dropWhile is_space s)))"

definition toLowerChar :: "char \<Rightarrow> char" where
  "toLowerChar c =
     (case map_of (zip ''ABCDEFGHIJKLMNOPQRSTUVWXYZ'' ''abcdefghijklmnopqrstuvwxyz'') c of
        Some l \<Rightarrow> l
      | None \<Rightarrow> c)"

definition toLowerCase :: "string \<Rightarrow> string" where
  "toLowerCase s = map toLowerChar s"

definition startsWith :: "string \<Rightarrow> string \<Rightarrow> bool" where
  "startsWith s p = (take (length p) s = p)"




subsection \<open>Numbers\<close>

text \<open>
  A JavaScript number is an IEEE 754 double. Here a finite double is the rational it
  denotes, and \<open>fl x\<close> is the double nearest to the rational \<open>x\<close>, a tie going to the
  even significand of 53 bits: the result of every arithmetic operation of the code is
  \<open>fl\<close> of the exact result. \<open>ilog2 x\<close> is the exponent \<open>e\<close> with \<open>2^e \<le> x < 2^(e+1)\<close>.
  The exponent range is not bounded, so the model is the code as long as a result is
  zero or lies between \<open>2^-1022\<close> and \<open>2^1024\<close> in magnitude.
\<close>

definition ilog2 :: "rat \<Rightarrow> int" where
  "ilog2 x =
     (let k = bitlen (fst (quotient_of x)) - bitlen (snd (quotient_of x))
      in if 2 powi k \<le> x then k else k - 1)"

definition round_even :: "rat \<Rightarrow> int" where
  "round_even m =
     (let f = \<lfloor>m\<rfloor>; d = m - of_int f
      in if d < 1 / 2 then f else if 1 / 2 < d then f + 1 else if even f then f else f + 1)"

definition fl :: "rat \<Rightarrow> rat" where
  "fl x =
     (if x = 0 then 0
      else (let e = ilog2 \<bar>x\<bar> - 52
            in sgn x * of_int (round_even (\<bar>x\<bar> / 2 powi e)) * 2 powi e))"


definition ToIntegerOrInfinity :: "rat \<Rightarrow> int" where
  "ToIntegerOrInfinity x = (if 0 \<le> x then \<lfloor>x\<rfloor> else \<lceil>x\<rceil>)"

section \<open>Tasks\<close>

text \<open>
  A task has the fields of \<open>taskSchema\<close>. A request body that passed the type checks of
  \<open>createTaskSchema\<close> or \<open>updateTaskSchema\<close> carries only the seven client fields,
  each absent or of the schema's type; the schema objects reject every other key. The
  middleware does not write the converted value back to \<open>req.body\<close>, so the fallback
  stores a due date as the client sent it: a number of milliseconds or a date string.
  A document of the \<open>Task\<close> model holds a \<open>Date\<close> object there. The \<open>_id\<close> of a task is
  the counter of the fallback or the \<open>ObjectId\<close> of a document.
\<close>

datatype date_input = DateMillis int | DateString string | DateObject int

datatype task_key = MapKey int | DocKey object_id

record task_body =
  b_title :: "string option"
  b_description :: "string option"
  b_status :: "string option"
  b_priority :: "string option"
  b_category :: "string option"
  b_dueDate :: "date_input nullable"
  b_tags :: "string list option"

record task =
  task_id :: task_key
  title :: "string option"
  description :: "string option"
  status :: "string option"
  priority :: "string option"
  category :: "string option"
  dueDate :: "date_input nullable"
  completedAt :: "int nullable"
  user :: object_id
  tags :: "string list option"
  createdAt :: int
  updatedAt :: int

record task_state =
  inMemoryTasks :: "(int \<times> task) list"
  taskCounter :: int

definition empty_body :: task_body where
  "empty_body = \<lparr>b_title = None, b_description = None, b_status = None, b_priority = None,
     b_category = None, b_dueDate = Undefined, b_tags = None\<rparr>"

definition initial_tasks :: task_state where
  "initial_tasks = \<lparr>inMemoryTasks = [], taskCounter = 1\<rparr>"

text \<open>
  The calls of the \<open>Task\<close> model made by \<open>createTask\<close> and by \<open>getUserTasks\<close>:
  \<open>new Task(taskData)\<close> followed by \<open>task.save()\<close>, which returns the saved document, and
  \<open>this.find(query).sort({createdAt: -1})\<close>. The query that \<open>getUserTasks\<close> builds has the
  owner, the two exact values and the two patterns, each compiled with the flag \<open>i\<close>; the
  search pattern stands under \<open>$or\<close> for title, description and tags.
\<close>

record mongo_query =
  mq_user :: object_id
  mq_status :: "string option"
  mq_priority :: "string option"
  mq_category :: "string option"
  mq_search :: "string option"

record task_model =
  Task_save :: "object_id \<Rightarrow> task_body \<Rightarrow> task attempt"
  Task_find :: "mongo_query \<Rightarrow> task list attempt"

text \<open>\<open>!task.completedAt\<close>: a \<open>Date\<close> object is truthy, \<open>null\<close> and \<open>undefined\<close> are not.\<close>

fun date_set :: "int nullable \<Rightarrow> bool" where
  "date_set (Val d) = True"
| "date_set Null = False"
| "date_set Undefined = False"

text \<open>
  \<open>createTask\<close>. The fallback builds \<open>{_id: taskCounter++, ...taskData, createdAt, updatedAt}\<close>
  and puts it in the map.
\<close>

definition createTask ::
  "task_model \<Rightarrow> int \<Rightarrow> object_id \<Rightarrow> task_body \<Rightarrow> task_state \<Rightarrow> task \<times> task_state" where
  "createTask M now userId body st =
     (case Task_save M userId body of
        Returns doc \<Rightarrow> (doc, st)
      | Throws \<Rightarrow>
          (let t = \<lparr>task_id = MapKey (taskCounter st),
                     title = b_title body,
                     description = b_description body,
                     status = b_status body,
                     priority = b_priority body,
                     category = b_category body,
                     dueDate = b_dueDate body,
                     completedAt = Undefined,
                     user = userId,
                     tags = b_tags body,
                     createdAt = now,
                     updatedAt = now\<rparr>
           in (t, \<lparr>inMemoryTasks = AList.update (taskCounter st) t (inMemoryTasks st),
                   taskCounter = taskCounter st + 1\<rparr>)))"







subsection \<open>Validation of task bodies\<close>

text \<open>
  \<open>validate(schema)\<close> answers 400 when \<open>schema.validate(req.body)\<close> reports an error.
  The predicates below are the constraints of the two Joi schemas on a typed body; a Joi
  string is trimmed before its length is checked and is not empty unless \<open>allow('')\<close>
  says so. \<open>joiDate\<close> stands for Joi's conversion of a date string (\<open>None\<close>: not a
  date); it is a parameter. A number is a date when it is a time value, at most
  \<open>8.64e15\<close> milliseconds from the epoch; \<open>new Date(n)\<close> is invalid beyond that.
\<close>

definition string_ok :: "nat \<Rightarrow> string \<Rightarrow> bool" where
  "string_ok mx s = (trim s \<noteq> [] \<and> length (trim s) \<le> mx)"

definition opt_ok :: "('a \<Rightarrow> bool) \<Rightarrow> 'a option \<Rightarrow> bool" where
  "opt_ok P x = (case x of None \<Rightarrow> True | Some v \<Rightarrow> P v)"

definition status_values :: "string list" where
  "status_values = [''pending'', ''in-progress'', ''completed'']"

definition priority_values :: "string list" where
  "priority_values = [''low'', ''medium'', ''high'']"

definition tags_ok :: "string list \<Rightarrow> bool" where
  "tags_ok ts = (list_all (string_ok 30) ts \<and> length ts \<le> 10)"

definition date_value :: "(string \<Rightarrow> int option) \<Rightarrow> date_input \<Rightarrow> int option" where
  "date_value convert d =
     (case d of
        DateMillis n \<Rightarrow> if \<bar>n\<bar> \<le> 8640000000000000 then Some n else None
      | DateString s \<Rightarrow> convert s
      | DateObject ms \<Rightarrow> Some ms)"

definition common_ok :: "task_body \<Rightarrow> bool" where
  "common_ok b =
     (opt_ok (\<lambda>s. length (trim s) \<le> 1000) (b_description b) \<and>
      opt_ok (\<lambda>s. s \<in> set status_values) (b_status b) \<and>
      opt_ok (\<lambda>s. s \<in> set priority_values) (b_priority b) \<and>
      opt_ok (string_ok 50) (b_category b) \<and>
      opt_ok tags_ok (b_tags b))"

definition createTaskSchema :: "(string \<Rightarrow> int option) \<Rightarrow> int \<Rightarrow> task_body \<Rightarrow> bool" where
  "createTaskSchema joiDate now b =
     ((case b_title b of None \<Rightarrow> False | Some s \<Rightarrow> string_ok 100 s) \<and>
      common_ok b \<and>
      (case b_dueDate b of
         Undefined \<Rightarrow> True
       | Null \<Rightarrow> False
       | Val d \<Rightarrow> (case date_value joiDate d of None \<Rightarrow> False | Some ms \<Rightarrow> now \<le> ms)))"


subsection \<open>Responses and the single-task routes\<close>

record 'd response =
  http_status :: nat
  success :: bool
  message :: "string option"
  data :: "'d option"

definition validation_error :: "'d response" where
  "validation_error =
     \<lparr>http_status = 400, success = False, message = Some ''Validation error'', data = None\<rparr>"


definition ok_response :: "nat \<Rightarrow> string option \<Rightarrow> 'd option \<Rightarrow> 'd response" where
  "ok_response code msg d = \<lparr>http_status = code, success = True, message = msg, data = d\<rparr>"

text \<open>\<open>POST /api/tasks\<close>, after \<open>authenticate\<close> has set \<open>req.user.id\<close>.\<close>

definition post_task ::
  "(string \<Rightarrow> int option) \<Rightarrow> task_model \<Rightarrow> int \<Rightarrow> object_id \<Rightarrow> task_body \<Rightarrow> task_state
     \<Rightarrow> task response \<times> task_state" where
  "post_task joiDate M now userId body st =
     (if \<not> createTaskSchema joiDate now body then (validation_error, st)
      else (let (t, st') = createTask M now userId body st
            in (ok_response 201 (Some ''Task created successfully'') (Some t), st')))"




text \<open>
  The pre-save hook of \<open>taskSchema\<close>, which \<open>task.save()\<close> runs on the document; it reads
  the document's own status.
\<close>

definition pre_save :: "int \<Rightarrow> task \<Rightarrow> task" where
  "pre_save now t =
     (let t1 = t\<lparr>updatedAt := now\<rparr>;
          t2 = (if status t1 = Some ''completed'' \<and> \<not> date_set (completedAt t1)
                then t1\<lparr>completedAt := Val now\<rparr> else t1)
      in if status t2 \<noteq> Some ''completed'' \<and> date_set (completedAt t2)
         then t2\<lparr>completedAt := Null\<rparr> else t2)"

subsection \<open>Listing: filters and order\<close>

text \<open>
  \<open>new RegExp(p, 'i')\<close> and its \<open>test\<close>. A pattern whose only metacharacter is the dot
  is matched here: every other character stands for itself up to letter case, a dot for
  any character but a line terminator, and \<open>test\<close> looks for a match at any position.
  For every other pattern the constructor is the parameter \<open>rx\<close>, which returns the
  \<open>test\<close> function or \<open>None\<close> when the constructor throws a \<open>SyntaxError\<close>.
\<close>

definition regex_meta :: "char \<Rightarrow> bool" where
  "regex_meta c = (c \<in> set (CHR 0x5C # ''^$.|?*+()[]{}''))"

definition dot_pattern :: "string \<Rightarrow> bool" where
  "dot_pattern p = list_all (\<lambda>c. c = CHR ''.'' \<or> \<not> regex_meta c) p"

definition rx_char :: "char \<Rightarrow> char \<Rightarrow> bool" where
  "rx_char p c =
     (if p = CHR ''.'' then c \<noteq> CHR 0x0A \<and> c \<noteq> CHR 0x0D
      else toLowerChar p = toLowerChar c)"

fun rx_prefix :: "string \<Rightarrow> string \<Rightarrow> bool" where
  "rx_prefix [] s = True"
| "rx_prefix (p # ps) [] = False"
| "rx_prefix (p # ps) (c # cs) = (rx_char p c \<and> rx_prefix ps cs)"

fun rx_search :: "string \<Rightarrow> string \<Rightarrow> bool" where
  "rx_search p [] = rx_prefix p []"
| "rx_search p (c # cs) = (rx_prefix p (c # cs) \<or> rx_search p cs)"

definition RegExp_i :: "(string \<Rightarrow> (string \<Rightarrow> bool) option) \<Rightarrow> string \<Rightarrow> (string \<Rightarrow> bool) option" where
  "RegExp_i rx p = (if dot_pattern p then Some (rx_search p) else rx p)"

text \<open>\<open>regex.test(v)\<close> converts its argument to a string: \<open>undefined\<close> becomes that word.\<close>

definition subject :: "string option \<Rightarrow> string" where
  "subject v = (case v of None \<Rightarrow> ''undefined'' | Some s \<Rightarrow> s)"

record task_filter =
  f_status :: "string option"
  f_priority :: "string option"
  f_category :: "string option"
  f_search :: "string option"


text \<open>\<open>if (filter.x)\<close>: the filter is used when it is a non-empty string.\<close>

definition given :: "string option \<Rightarrow> string option" where
  "given v = (case v of None \<Rightarrow> None | Some s \<Rightarrow> if s = [] then None else Some s)"

definition search_hit :: "(string \<Rightarrow> bool) \<Rightarrow> task \<Rightarrow> bool" where
  "search_hit re t =
     (re (subject (title t)) \<or> re (subject (description t)) \<or>
      (case tags t of None \<Rightarrow> False | Some ts \<Rightarrow> list_ex re ts))"

text \<open>
  \<open>taskSchema.statics.getUserTasks\<close>: the two constructors run before the query is made,
  and a bad pattern throws.
\<close>

definition compiles :: "(string \<Rightarrow> (string \<Rightarrow> bool) option) \<Rightarrow> string option \<Rightarrow> bool" where
  "compiles rx v =
     (case v of
        None \<Rightarrow> True
      | Some p \<Rightarrow> (case RegExp_i rx p of None \<Rightarrow> False | Some re \<Rightarrow> True))"

definition getUserTasks ::
  "(string \<Rightarrow> (string \<Rightarrow> bool) option) \<Rightarrow> task_model \<Rightarrow> object_id \<Rightarrow> task_filter
     \<Rightarrow> task list attempt" where
  "getUserTasks rx M userId flt =
     (if \<not> compiles rx (given (f_category flt)) then Throws
      else if \<not> compiles rx (given (f_search flt)) then Throws
      else Task_find M \<lparr>mq_user = userId,
                        mq_status = given (f_status flt),
                        mq_priority = given (f_priority flt),
                        mq_category = given (f_category flt),
                        mq_search = given (f_search flt)\<rparr>)"

text \<open>
  \<open>findUserTasks\<close>: what \<open>getUserTasks\<close> returns, or the fallback on the map; \<open>Inl\<close> is
  the exception of a bad pattern, which the fallback does not catch.
\<close>

definition findUserTasks ::
  "(string \<Rightarrow> (string \<Rightarrow> bool) option) \<Rightarrow> task_model \<Rightarrow> task_state \<Rightarrow> object_id \<Rightarrow> task_filter
     \<Rightarrow> string + task list" where
  "findUserTasks rx M st userId flt =
     (case getUserTasks rx M userId flt of
        Returns docs \<Rightarrow> Inr docs
      | Throws \<Rightarrow>
          (let t0 = filter (\<lambda>t. loose_eq (user t) userId) (map snd (inMemoryTasks st));
               t1 = (case given (f_status flt) of
                       None \<Rightarrow> t0
                     | Some s \<Rightarrow> filter (\<lambda>t. status t = Some s) t0);
               t2 = (case given (f_priority flt) of
                       None \<Rightarrow> t1
                     | Some s \<Rightarrow> filter (\<lambda>t. priority t = Some s) t1);
               t3 = (case given (f_category flt) of
                       None \<Rightarrow> Inr t2
                     | Some c \<Rightarrow>
                         (case RegExp_i rx c of
                            None \<Rightarrow> Inl ''SyntaxError''
                          | Some re \<Rightarrow> Inr (filter (\<lambda>t. re (subject (category t))) t2)))
           in case t3 of
                Inl e \<Rightarrow> Inl e
              | Inr ts \<Rightarrow>
                  (case given (f_search flt) of
                     None \<Rightarrow> Inr (sort_key (\<lambda>t. - createdAt t) ts)
                   | Some q \<Rightarrow>
                       (case RegExp_i rx q of
                          None \<Rightarrow> Inl ''SyntaxError''
                        | Some re \<Rightarrow>
                            Inr (sort_key (\<lambda>t. - createdAt t) (filter (search_hit re) ts))))))"

subsection \<open>Listing: pagination\<close>

text \<open>
  \<open>page\<close> and \<open>limit\<close> arrive as query strings. The model carries the integer a
  decimal literal denotes, or \<open>None\<close> for an absent parameter, which takes the default.
  The conversion of the string to a number, in \<open>page - 1\<close>, in the two products and in
  \<open>parseInt(page)\<close>, rounds that integer to a double, which is again an integer.
\<close>

record task_query =
  q_status :: "string option"
  q_priority :: "string option"
  q_category :: "string option"
  q_search :: "string option"
  q_page :: "int option"
  q_limit :: "int option"

record pagination =
  pg_current :: int
  pg_total :: "int option"
  pg_count :: nat
  pg_totalTasks :: nat

text \<open>\<open>Array.prototype.slice(start, end)\<close>: a negative index counts from the end.\<close>

definition js_slice :: "'a list \<Rightarrow> int \<Rightarrow> int \<Rightarrow> 'a list" where
  "js_slice xs start fin =
     (let n = int (length xs);
          k = (if start < 0 then max (n + start) 0 else min start n);
          e = (if fin < 0 then max (n + fin) 0 else min fin n)
      in take (nat (e - k)) (drop (nat k) xs))"

text \<open>
  The slice and the pagination object. \<open>Math.ceil(tasks.length / limit)\<close>: the quotient by
  zero is not finite and is sent as null.
\<close>

definition paginate :: "int \<Rightarrow> int \<Rightarrow> task list \<Rightarrow> task list \<times> pagination" where
  "paginate p l tasks =
     (let page = fl (of_int p);
          limit = fl (of_int l);
          startIndex = fl (fl (page - 1) * limit);
          endIndex = fl (page * limit);
          paginatedTasks =
            js_slice tasks (ToIntegerOrInfinity startIndex) (ToIntegerOrInfinity endIndex)
      in (paginatedTasks,
          \<lparr>pg_current = \<lfloor>page\<rfloor>,
           pg_total = (if limit = 0 then None
                       else Some \<lceil>fl (of_nat (length tasks) / limit)\<rceil>),
           pg_count = length paginatedTasks,
           pg_totalTasks = length tasks\<rparr>))"

definition server_error :: "string \<Rightarrow> 'd response" where
  "server_error msg = \<lparr>http_status = 500, success = False, message = Some msg, data = None\<rparr>"

text \<open>\<open>GET /api/tasks\<close>.\<close>

definition query_page :: "task_query \<Rightarrow> int" where
  "query_page q = (case q_page q of None \<Rightarrow> 1 | Some p \<Rightarrow> p)"

definition query_limit :: "task_query \<Rightarrow> int" where
  "query_limit q = (case q_limit q of None \<Rightarrow> 10 | Some l \<Rightarrow> l)"

definition query_filter :: "task_query \<Rightarrow> task_filter" where
  "query_filter q =
     \<lparr>f_status = given (q_status q), f_priority = given (q_priority q),
      f_category = given (q_category q), f_search = given (q_search q)\<rparr>"

definition get_tasks ::
  "(string \<Rightarrow> (string \<Rightarrow> bool) option) \<Rightarrow> task_model \<Rightarrow> task_state \<Rightarrow> object_id \<Rightarrow> task_query
     \<Rightarrow> (task list \<times> pagination) response" where
  "get_tasks rx M st userId q =
     (case findUserTasks rx M st userId (query_filter q) of
        Inl e \<Rightarrow> server_error ''Server error fetching tasks''
      | Inr tasks \<Rightarrow>
          ok_response 200 None (Some (paginate (query_page q) (query_limit q) tasks)))"

subsection \<open>Statistics\<close>






subsection \<open>The listing contract in the words of the specification\<close>










subsection \<open>The collection behind the model\<close>

text \<open>
  What a query of \<open>getUserTasks\<close> selects from a collection of documents: the documents
  of the user with that identifier, with the exact status and priority, and with a
  match of the pattern in the category, respectively in the title, the description or a
  tag. A field that a document does not have matches no pattern. A document of the
  model has the fields that \<open>taskSchema\<close> gives a default, one of the statuses of the
  enumeration, and a due date that is null or a \<open>Date\<close>.
\<close>

definition regex_field :: "(string \<Rightarrow> (string \<Rightarrow> bool) option) \<Rightarrow> string \<Rightarrow> string option \<Rightarrow> bool" where
  "regex_field rx p v =
     (case RegExp_i rx p of
        None \<Rightarrow> False
      | Some re \<Rightarrow> (case v of None \<Rightarrow> False | Some s \<Rightarrow> re s))"

definition mongo_matches :: "(string \<Rightarrow> (string \<Rightarrow> bool) option) \<Rightarrow> mongo_query \<Rightarrow> task \<Rightarrow> bool" where
  "mongo_matches rx q t =
     (oid_hex (user t) = oid_hex (mq_user q) \<and>
      (case mq_status q of None \<Rightarrow> True | Some s \<Rightarrow> status t = Some s) \<and>
      (case mq_priority q of None \<Rightarrow> True | Some s \<Rightarrow> priority t = Some s) \<and>
      (case mq_category q of None \<Rightarrow> True | Some p \<Rightarrow> regex_field rx p (category t)) \<and>
      (case mq_search q of
         None \<Rightarrow> True
       | Some p \<Rightarrow>
           regex_field rx p (title t) \<or> regex_field rx p (description t) \<or>
           (case tags t of None \<Rightarrow> False | Some ts \<Rightarrow> list_ex (\<lambda>s. regex_field rx p (Some s)) ts)))"


definition mongo_find ::
  "(string \<Rightarrow> (string \<Rightarrow> bool) option) \<Rightarrow> task list \<Rightarrow> mongo_query \<Rightarrow> task list attempt" where
  "mongo_find rx coll q = Returns (sort_key (\<lambda>t. - createdAt t) (filter (mongo_matches rx q) coll))"




text \<open>
  The slice of a list from index \<open>a\<close> up to, and excluding, index \<open>b\<close>: the elements at
  the positions \<open>i\<close> with \<open>a \<le> i < b\<close>, in order.
\<close>

definition spec_slice :: "'a list \<Rightarrow> int \<Rightarrow> int \<Rightarrow> 'a list" where
  "spec_slice xs a b = map (\<lambda>i. xs ! i) (filter (\<lambda>i. a \<le> int i \<and> int i < b) [0 ..< length xs])"



section \<open>Users and authentication\<close>

text \<open>
  The route modules call library functions whose code is not part of the repository:
  Joi's syntax checks for an e-mail address and a URI, \<open>bcrypt.hash\<close> (the salt it draws
  is an argument here) and \<open>bcrypt.compare\<close>, \<open>jwt.sign\<close> and \<open>jwt.verify\<close>, and the
  Mongoose query \<open>User.findById\<close> of the \<open>User\<close> model. They are the fields of one
  record of parameters. A call that throws returns \<open>Inl\<close>.
\<close>

datatype jwt_error = JsonWebTokenError | TokenExpiredError | OtherError

record lib =
  is_email :: "string \<Rightarrow> bool"
  is_uri :: "string \<Rightarrow> bool"
  bcrypt_hash :: "string \<Rightarrow> string \<Rightarrow> string"
  bcrypt_compare :: "string \<Rightarrow> string \<Rightarrow> bool"
  jwt_sign :: "jsval option \<Rightarrow> string \<Rightarrow> string \<Rightarrow> string"
  jwt_verify :: "string \<Rightarrow> string \<Rightarrow> jwt_error + obj"
  User_findById :: "jsval option \<Rightarrow> string + obj option"

record env =
  JWT_SECRET_env :: "string option"
  JWT_EXPIRE_env :: "string option"

definition JWT_SECRET :: "env \<Rightarrow> string" where
  "JWT_SECRET e =
     (case given (JWT_SECRET_env e) of
        None \<Rightarrow> ''your-super-secret-jwt-key-change-in-production''
      | Some s \<Rightarrow> s)"

text \<open>\<open>generateToken({id: ...})\<close>: the payload is given by its \<open>id\<close>.\<close>

definition generateToken :: "lib \<Rightarrow> env \<Rightarrow> jsval option \<Rightarrow> string" where
  "generateToken L e payload_id =
     jwt_sign L payload_id (JWT_SECRET e)
       (case given (JWT_EXPIRE_env e) of None \<Rightarrow> ''24h'' | Some x \<Rightarrow> x)"

subsection \<open>The authenticate middleware\<close>

datatype step = Respond "unit response" | Next obj

definition deny :: "nat \<Rightarrow> string \<Rightarrow> step" where
  "deny code msg =
     Respond \<lparr>http_status = code, success = False, message = Some msg, data = None\<rparr>"

text \<open>\<open>req.user = {id: user._id, email: user.email, name: user.name, role: user.role}\<close>.\<close>

definition req_user_of :: "obj \<Rightarrow> obj" where
  "req_user_of u =
     (\<lambda>k. if k = ''id'' then u ''_id''
          else if k = ''email'' \<or> k = ''name'' \<or> k = ''role'' then u k
          else None)"

definition authenticate :: "lib \<Rightarrow> env \<Rightarrow> string option \<Rightarrow> step" where
  "authenticate L e authHeader =
     (case given authHeader of
        None \<Rightarrow> deny 401 ''Access denied. No token provided.''
      | Some h \<Rightarrow>
          if \<not> startsWith h ''Bearer '' then deny 401 ''Access denied. No token provided.''
          else if drop 7 h = [] then deny 401 ''Access denied. Invalid token format.''
          else (case jwt_verify L (drop 7 h) (JWT_SECRET e) of
                  Inl JsonWebTokenError \<Rightarrow> deny 401 ''Invalid token.''
                | Inl TokenExpiredError \<Rightarrow> deny 401 ''Token expired.''
                | Inl OtherError \<Rightarrow> deny 500 ''Token verification failed.''
                | Inr decoded \<Rightarrow>
                    (case User_findById L (decoded ''id'') of
                       Inl err \<Rightarrow> deny 500 ''Token verification failed.''
                     | Inr None \<Rightarrow> deny 401 ''User not found or inactive.''
                     | Inr (Some u) \<Rightarrow>
                         if \<not> truthy (u ''isActive'')
                         then deny 401 ''User not found or inactive.''
                         else Next (req_user_of u))))"

subsection \<open>Registration and login\<close>

text \<open>Bodies that passed the type checks of the schemas, as for tasks.\<close>

record register_body =
  r_name :: "string option"
  r_email :: "string option"
  r_password :: "string option"

record login_body =
  l_email :: "string option"
  l_password :: "string option"

definition is_letter :: "char \<Rightarrow> bool" where
  "is_letter c = (c \<in> set ''abcdefghijklmnopqrstuvwxyzABCDEFGHIJKLMNOPQRSTUVWXYZ'')"

definition is_digit :: "char \<Rightarrow> bool" where
  "is_digit c = (c \<in> set ''0123456789'')"

text \<open>
  The password pattern \<open>^(?=.*[a-zA-Z])(?=.*[0-9])\<close>: a letter and a digit before the
  first line terminator.
\<close>

definition password_pattern :: "string \<Rightarrow> bool" where
  "password_pattern p =
     (let line = takeWhile (\<lambda>c. c \<noteq> CHR 0x0A \<and> c \<noteq> CHR 0x0D) p
      in list_ex is_letter line \<and> list_ex is_digit line)"

definition registerSchema :: "lib \<Rightarrow> register_body \<Rightarrow> bool" where
  "registerSchema L b =
     ((case r_name b of None \<Rightarrow> False | Some n \<Rightarrow> 2 \<le> length (trim n) \<and> length (trim n) \<le> 50) \<and>
      (case r_email b of None \<Rightarrow> False | Some m \<Rightarrow> m \<noteq> [] \<and> is_email L m) \<and>
      (case r_password b of
         None \<Rightarrow> False
       | Some p \<Rightarrow> 6 \<le> length p \<and> length p \<le> 128 \<and> password_pattern p))"

definition loginSchema :: "lib \<Rightarrow> login_body \<Rightarrow> bool" where
  "loginSchema L b =
     ((case l_email b of None \<Rightarrow> False | Some m \<Rightarrow> m \<noteq> [] \<and> is_email L m) \<and>
      (case l_password b of None \<Rightarrow> False | Some p \<Rightarrow> p \<noteq> []))"

record auth_state =
  inMemoryUsers :: "(string \<times> obj) list"
  userCounter :: int

definition initial_users :: auth_state where
  "initial_users = \<lparr>inMemoryUsers = [], userCounter = 1\<rparr>"

text \<open>
  A document of the \<open>User\<close> model, as the handlers use it: the properties they read
  (\<open>_id\<close>, \<open>isActive\<close>) and the results of the methods they call. The model
  (\<open>models/User.js\<close>) is not part of the source, so \<open>matchPassword\<close>, \<open>save\<close> and
  \<open>getPublicProfile\<close> are what the document answers. The calls that the helpers of the
  auth routes make on the model are the two fields of \<open>user_model\<close>:
  \<open>User.findByEmail(email).select('+password')\<close>, and \<open>new User(userData)\<close> followed by
  \<open>user.save()\<close> and \<open>user.getPublicProfile()\<close>. They are given per request: the
  database answers one request and may not answer the next.
\<close>

record user_doc =
  doc_fields :: obj
  matchPassword :: "string \<Rightarrow> bool attempt"
  save :: "unit attempt"
  getPublicProfile :: "obj attempt"

datatype found_user = Document user_doc | Plain obj

record user_model =
  User_findByEmail :: "string \<Rightarrow> user_doc option attempt"
  User_create :: "string \<Rightarrow> string \<Rightarrow> string \<Rightarrow> obj attempt"

text \<open>\<open>const { password, ...publicProfile } = user\<close>.\<close>

definition without_password :: "obj \<Rightarrow> obj" where
  "without_password u = u(''password'' := None)"

text \<open>\<open>createUser\<close>.\<close>

definition createUser ::
  "lib \<Rightarrow> user_model \<Rightarrow> string \<Rightarrow> int \<Rightarrow> string \<Rightarrow> string \<Rightarrow> string \<Rightarrow> auth_state
     \<Rightarrow> obj \<times> auth_state" where
  "createUser L M salt now name email password st =
     (case User_create M name email password of
        Returns profile \<Rightarrow> (profile, st)
      | Throws \<Rightarrow>
          (let hashedPassword = bcrypt_hash L salt password;
               u = Map.empty(''_id'' \<mapsto> JNum (userCounter st),
                     ''name'' \<mapsto> JStr name,
                     ''email'' \<mapsto> JStr (toLowerCase email),
                     ''password'' \<mapsto> JStr hashedPassword,
                     ''role'' \<mapsto> JStr ''user'',
                     ''isActive'' \<mapsto> JBool True,
                     ''createdAt'' \<mapsto> JDate now,
                     ''updatedAt'' \<mapsto> JDate now)
           in (without_password u,
               \<lparr>inMemoryUsers = AList.update (toLowerCase email) u (inMemoryUsers st),
                userCounter = userCounter st + 1\<rparr>)))"

text \<open>\<open>findUserByEmail\<close>; the fallback is \<open>inMemoryUsers.get(email.toLowerCase())\<close>.\<close>

definition findUserByEmail :: "user_model \<Rightarrow> auth_state \<Rightarrow> string \<Rightarrow> found_user option" where
  "findUserByEmail M st email =
     (case User_findByEmail M email of
        Returns r \<Rightarrow> map_option Document r
      | Throws \<Rightarrow> map_option Plain (map_of (inMemoryUsers st) (toLowerCase email)))"

definition refuse :: "nat \<Rightarrow> string \<Rightarrow> 'd response" where
  "refuse code msg = \<lparr>http_status = code, success = False, message = Some msg, data = None\<rparr>"

text \<open>\<open>POST /api/auth/register\<close>.\<close>

definition register ::
  "lib \<Rightarrow> user_model \<Rightarrow> env \<Rightarrow> string \<Rightarrow> int \<Rightarrow> register_body \<Rightarrow> auth_state
     \<Rightarrow> (obj \<times> string) response \<times> auth_state" where
  "register L M e salt now body st =
     (if \<not> registerSchema L body then (validation_error, st)
      else (case (r_name body, r_email body, r_password body) of
              (Some name, Some email, Some password) \<Rightarrow>
                (case findUserByEmail M st email of
                   Some existingUser \<Rightarrow> (refuse 400 ''User with this email already exists'', st)
                 | None \<Rightarrow>
                     (let (u, st') = createUser L M salt now name email password st;
                          token = generateToken L e (u ''_id'')
                      in (ok_response 201 (Some ''User registered successfully'') (Some (u, token)),
                          st')))
            | _ \<Rightarrow> (validation_error, st)))"

text \<open>
  \<open>POST /api/auth/login\<close>. A document checks the password with its \<open>matchPassword\<close>, is
  saved with the new \<open>lastLogin\<close> and answers with its public profile; a user of the map
  is the stored object, so the \<open>lastLogin\<close> written to the map shows in the answer, and
  \<open>bcrypt.compare\<close> throws on a hash that is not a string. An exception is answered 500.
\<close>

definition login ::
  "lib \<Rightarrow> user_model \<Rightarrow> env \<Rightarrow> int \<Rightarrow> login_body \<Rightarrow> auth_state
     \<Rightarrow> (obj \<times> string) response \<times> auth_state" where
  "login L M e now body st =
     (if \<not> loginSchema L body then (validation_error, st)
      else (case (l_email body, l_password body) of
              (Some email, Some password) \<Rightarrow>
                (case findUserByEmail M st email of
                   None \<Rightarrow> (refuse 401 ''Invalid email or password'', st)
                 | Some (Document d) \<Rightarrow>
                     if \<not> truthy (doc_fields d ''isActive'')
                     then (refuse 401 ''Account is deactivated'', st)
                     else (case matchPassword d password of
                             Throws \<Rightarrow> (server_error ''Server error during login'', st)
                           | Returns False \<Rightarrow> (refuse 401 ''Invalid email or password'', st)
                           | Returns True \<Rightarrow>
                               (case save d of
                                  Throws \<Rightarrow> (server_error ''Server error during login'', st)
                                | Returns saved \<Rightarrow>
                                    (case getPublicProfile d of
                                       Throws \<Rightarrow> (server_error ''Server error during login'', st)
                                     | Returns profile \<Rightarrow>
                                         (ok_response 200 (Some ''Login successful'')
                                            (Some (without_password profile,
                                                   generateToken L e (doc_fields d ''_id''))),
                                          st))))
                 | Some (Plain u) \<Rightarrow>
                     if \<not> truthy (u ''isActive'') then (refuse 401 ''Account is deactivated'', st)
                     else (case u ''password'' of
                             Some (JStr hashedPassword) \<Rightarrow>
                               if \<not> bcrypt_compare L password hashedPassword
                               then (refuse 401 ''Invalid email or password'', st)
                               else (let u' = u(''lastLogin'' \<mapsto> JDate now);
                                         token = generateToken L e (u ''_id'')
                                     in (ok_response 200 (Some ''Login successful'')
                                           (Some (without_password u', token)),
                                         st\<lparr>inMemoryUsers :=
                                              AList.update (toLowerCase email) u' (inMemoryUsers st)\<rparr>))
                           | _ \<Rightarrow> (server_error ''Server error during login'', st)))
            | _ \<Rightarrow> (validation_error, st)))"

text \<open>\<open>GET /api/auth/me\<close> and \<open>GET /api/auth/verify\<close>, after \<open>authenticate\<close>.\<close>

definition me :: "user_model \<Rightarrow> auth_state \<Rightarrow> obj \<Rightarrow> obj response" where
  "me M st req_user =
     (case req_user ''email'' of
        Some (JStr email) \<Rightarrow>
          (case findUserByEmail M st email of
             None \<Rightarrow> refuse 404 ''User not found''
           | Some (Document d) \<Rightarrow>
               (case getPublicProfile d of
                  Throws \<Rightarrow> server_error ''Server error fetching profile''
                | Returns profile \<Rightarrow> ok_response 200 None (Some (without_password profile)))
           | Some (Plain u) \<Rightarrow> ok_response 200 None (Some (without_password u)))
      | _ \<Rightarrow> server_error ''Server error fetching profile'')"

definition verify :: "obj \<Rightarrow> obj response" where
  "verify req_user = ok_response 200 (Some ''Token is valid'') (Some req_user)"

subsection \<open>The profile routes\<close>

text \<open>
  The users module has a map \<open>inMemoryUsers\<close> of its own, walked in insertion order; no
  statement of the module writes to it. Its calls on the \<open>User\<close> model are the fields of
  \<open>user_store\<close>, over a database \<open>'db\<close> that \<open>User.findByIdAndUpdate\<close> changes:
  \<open>User.findById(id)\<close>; \<open>User.findByIdAndUpdate(id, updateData, {new: true,
  runValidators: true})\<close> followed by \<open>user ? user.getPublicProfile() : null\<close>; and
  \<open>User.find({isActive: true}).select('-password')\<close>. The identifier of the request is
  \<open>req.user.id\<close>.
\<close>

record profile_body =
  p_name :: "string option"
  p_avatar :: "string option"

record 'db user_store =
  db_findById :: "object_id \<Rightarrow> 'db \<Rightarrow> user_doc option attempt"
  db_findByIdAndUpdate :: "object_id \<Rightarrow> obj \<Rightarrow> 'db \<Rightarrow> obj option attempt \<times> 'db"
  db_find_active :: "'db \<Rightarrow> obj list attempt"

definition updateProfileSchema :: "lib \<Rightarrow> profile_body \<Rightarrow> bool" where
  "updateProfileSchema L b =
     (opt_ok (\<lambda>n. 2 \<le> length (trim n) \<and> length (trim n) \<le> 50) (p_name b) \<and>
      opt_ok (\<lambda>a. a = [] \<or> is_uri L a) (p_avatar b))"

text \<open>\<open>user._id == id\<close>, for a stored \<open>_id\<close> that is an \<open>ObjectId\<close>.\<close>

definition id_is :: "obj \<Rightarrow> object_id \<Rightarrow> bool" where
  "id_is u i = (case u ''_id'' of Some (JOid a) \<Rightarrow> loose_eq a i | _ \<Rightarrow> False)"

text \<open>The loop of the fallback of \<open>findUserById\<close>, and the helper.\<close>

fun find_in_memory :: "(string \<times> obj) list \<Rightarrow> object_id \<Rightarrow> obj option" where
  "find_in_memory [] i = None"
| "find_in_memory ((email, u) # rest) i = (if id_is u i then Some u else find_in_memory rest i)"

definition findUserById ::
  "'db user_store \<Rightarrow> 'db \<Rightarrow> (string \<times> obj) list \<Rightarrow> object_id \<Rightarrow> found_user option" where
  "findUserById U db mem i =
     (case db_findById U i db of
        Returns r \<Rightarrow> map_option Document r
      | Throws \<Rightarrow> map_option Plain (find_in_memory mem i))"

text \<open>
  The loop of the fallback of \<open>updateUser\<close>: the first user with the id gets
  \<open>Object.assign(user, updateData, {updatedAt: new Date()})\<close>. Then the helper.
\<close>

fun update_in_memory ::
  "int \<Rightarrow> object_id \<Rightarrow> obj \<Rightarrow> (string \<times> obj) list \<Rightarrow> obj option \<times> (string \<times> obj) list" where
  "update_in_memory now i updateData [] = (None, [])"
| "update_in_memory now i updateData ((email, u) # rest) =
     (if id_is u i
      then (let u' = (u ++ updateData)(''updatedAt'' \<mapsto> JDate now)
            in (Some (without_password u'), (email, u') # rest))
      else (case update_in_memory now i updateData rest of
              (r, rest') \<Rightarrow> (r, (email, u) # rest')))"

definition updateUser ::
  "'db user_store \<Rightarrow> int \<Rightarrow> object_id \<Rightarrow> obj \<Rightarrow> 'db \<Rightarrow> (string \<times> obj) list
     \<Rightarrow> obj option \<times> 'db \<times> (string \<times> obj) list" where
  "updateUser U now i updateData db mem =
     (case db_findByIdAndUpdate U i updateData db of
        (Returns r, db') \<Rightarrow> (r, db', mem)
      | (Throws, db') \<Rightarrow>
          (case update_in_memory now i updateData mem of
             (r, mem') \<Rightarrow> (r, db', mem')))"

text \<open>\<open>GET /api/users/profile\<close>.\<close>

definition get_profile ::
  "'db user_store \<Rightarrow> 'db \<Rightarrow> (string \<times> obj) list \<Rightarrow> object_id \<Rightarrow> obj response" where
  "get_profile U db mem userId =
     (case findUserById U db mem userId of
        None \<Rightarrow> refuse 404 ''User not found''
      | Some (Document d) \<Rightarrow>
          (case getPublicProfile d of
             Throws \<Rightarrow> server_error ''Server error fetching profile''
           | Returns profile \<Rightarrow> ok_response 200 None (Some (without_password profile)))
      | Some (Plain u) \<Rightarrow> ok_response 200 None (Some (without_password u)))"

text \<open>
  \<open>PUT /api/users/profile\<close>: \<open>updateData\<close> gets \<open>name\<close> and \<open>avatar\<close> when the body
  has them.
\<close>

definition profile_patch :: "profile_body \<Rightarrow> obj" where
  "profile_patch body =
     (\<lambda>k. if k = ''name'' then map_option JStr (p_name body)
          else if k = ''avatar'' then map_option JStr (p_avatar body)
          else None)"

definition put_profile ::
  "lib \<Rightarrow> 'db user_store \<Rightarrow> int \<Rightarrow> object_id \<Rightarrow> profile_body \<Rightarrow> 'db \<Rightarrow> (string \<times> obj) list
     \<Rightarrow> obj response \<times> 'db \<times> (string \<times> obj) list" where
  "put_profile L U now userId body db mem =
     (if \<not> updateProfileSchema L body then (validation_error, db, mem)
      else (case updateUser U now userId (profile_patch body) db mem of
              (None, db', mem') \<Rightarrow> (refuse 404 ''User not found'', db', mem')
            | (Some u, db', mem') \<Rightarrow>
                (ok_response 200 (Some ''Profile updated successfully'') (Some u), db', mem')))"

text \<open>\<open>DELETE /api/users/profile\<close>.\<close>

definition delete_profile ::
  "'db user_store \<Rightarrow> int \<Rightarrow> object_id \<Rightarrow> 'db \<Rightarrow> (string \<times> obj) list
     \<Rightarrow> obj response \<times> 'db \<times> (string \<times> obj) list" where
  "delete_profile U now userId db mem =
     (case updateUser U now userId (Map.empty(''isActive'' \<mapsto> JBool False)) db mem of
        (None, db', mem') \<Rightarrow> (refuse 404 ''User not found'', db', mem')
      | (Some u, db', mem') \<Rightarrow>
          (ok_response 200 (Some ''Account deactivated successfully'') None, db', mem'))"

text \<open>\<open>GET /api/users\<close>.\<close>

definition list_users ::
  "'db user_store \<Rightarrow> 'db \<Rightarrow> (string \<times> obj) list \<Rightarrow> (obj list \<times> nat) response" where
  "list_users U db mem =
     (let users = (case db_find_active U db of
                     Returns docs \<Rightarrow> docs
                   | Throws \<Rightarrow>
                       map without_password (filter (\<lambda>u. truthy (u ''isActive'')) (map snd mem)))
      in ok_response 200 None (Some (users, length users)))"

section \<open>Fixtures\<close>

text \<open>
  Two users. Every request of a user carries a new identifier object, so \<open>ann_again\<close> is
  the identifier of Ann in a later request than \<open>ann\<close>.
\<close>

definition ann :: object_id where
  "ann = ObjectId 1 ''64b000000000000000000001''"

definition ann_again :: object_id where
  "ann_again = ObjectId 3 ''64b000000000000000000001''"

definition bob :: object_id where
  "bob = ObjectId 2 ''64b000000000000000000002''"

definition no_regexp :: "string \<Rightarrow> (string \<Rightarrow> bool) option" where
  "no_regexp p = None"

text \<open>A database that does not answer, and a database that holds a collection of tasks.\<close>

definition offline :: task_model where
  "offline = \<lparr>Task_save = (\<lambda>u b. Throws), Task_find = (\<lambda>q. Throws)\<rparr>"

definition database :: "task list \<Rightarrow> task_model" where
  "database coll = \<lparr>Task_save = (\<lambda>u b. Throws), Task_find = mongo_find no_regexp coll\<rparr>"

definition doc ::
  "nat \<Rightarrow> string \<Rightarrow> string \<Rightarrow> string \<Rightarrow> object_id \<Rightarrow> int \<Rightarrow> task" where
  "doc k ttl cat st owner created =
     \<lparr>task_id = DocKey (ObjectId k ''65c0000000000000000000aa''),
      title = Some ttl, description = Some '''', status = Some st, priority = Some ''medium'',
      category = Some cat, dueDate = Null, completedAt = Null, user = owner, tags = Some [],
      createdAt = created, updatedAt = created\<rparr>"

definition work_docs :: "task list" where
  "work_docs =
     [doc 11 ''Shop'' ''Home'' ''completed'' ann 10,
      doc 12 ''Plan week'' ''Work'' ''pending'' ann 20,
      doc 13 ''Plan trip'' ''Work'' ''pending'' bob 30,
      doc 14 ''Write plan'' ''Work'' ''pending'' ann 40]"



definition pending_page_two :: task_query where
  "pending_page_two = \<lparr>q_status = Some ''pending'', q_priority = None, q_category = None,
     q_search = None, q_page = Some 2, q_limit = Some 1\<rparr>"

definition page_query :: "int \<Rightarrow> int \<Rightarrow> task_query" where
  "page_query p l = \<lparr>q_status = None, q_priority = None, q_category = None,
     q_search = None, q_page = Some p, q_limit = Some l\<rparr>"






text \<open>Users, the libraries and the environment of the examples.\<close>

definition demo_user :: obj where
  "demo_user =
     Map.empty(''_id'' \<mapsto> JNum 1, ''name'' \<mapsto> JStr ''Ann'', ''email'' \<mapsto> JStr ''ann@x.com'',
       ''password'' \<mapsto> JStr ''abc123$s1'', ''role'' \<mapsto> JStr ''user'',
       ''isActive'' \<mapsto> JBool True, ''createdAt'' \<mapsto> JDate 10, ''updatedAt'' \<mapsto> JDate 10)"

definition demo_lib :: lib where
  "demo_lib =
     \<lparr>is_email = (\<lambda>s. CHR ''@'' \<in> set s),
      is_uri = (\<lambda>s. startsWith s ''http''),
      bcrypt_hash = (\<lambda>salt p. p @ ''$'' @ salt),
      bcrypt_compare = (\<lambda>p h. take (Suc (length p)) h = p @ ''$''),
      jwt_sign = (\<lambda>i secret expiry. ''signed''),
      jwt_verify = (\<lambda>token secret.
         if token = ''signed'' then Inr (Map.empty(''id'' \<mapsto> JNum 1))
         else Inl JsonWebTokenError),
      User_findById = (\<lambda>i. if i = Some (JNum 1) then Inr (Some demo_user) else Inr None)\<rparr>"

definition demo_env :: env where
  "demo_env = \<lparr>JWT_SECRET_env = None, JWT_EXPIRE_env = None\<rparr>"

section \<open>Properties of the numbers\<close>

lemma round_even_int: "round_even (of_int m) = m"
  by (simp add: round_even_def Let_def)

lemma round_even_err: "\<bar>of_int (round_even m) - m\<bar> \<le> 1 / 2"
proof -
  have "of_int \<lfloor>m\<rfloor> \<le> m" "m < of_int \<lfloor>m\<rfloor> + 1" by linarith+
  then show ?thesis by (auto simp add: round_even_def Let_def)
qed

lemma ilog2_bounds:
  assumes "0 < x"
  shows "2 powi (ilog2 x) \<le> x \<and> x < 2 powi (ilog2 x + 1)"
proof -
  obtain a b where q: "quotient_of x = (a, b)" by (cases "quotient_of x")
  then have b: "0 < b" and x: "x = of_int a / of_int b"
    using quotient_of_denom_pos quotient_of_div by auto
  with assms have a: "0 < a" by (simp add: zero_less_divide_iff)
  let ?la = "bitlen a" and ?lb = "bitlen b"
  have la: "2 ^ nat (?la - 1) \<le> a" "a < 2 ^ nat ?la" using bitlen_bounds [OF a] by auto
  have lb: "2 ^ nat (?lb - 1) \<le> b" "b < 2 ^ nat ?lb" using bitlen_bounds [OF b] by auto
  have pa: "1 \<le> ?la"
  proof (rule ccontr)
    assume "\<not> 1 \<le> ?la"
    then have "nat ?la = 0" by simp
    with la(2) a show False by simp
  qed
  have pb: "1 \<le> ?lb"
  proof (rule ccontr)
    assume "\<not> 1 \<le> ?lb"
    then have "nat ?lb = 0" by simp
    with lb(2) b show False by simp
  qed
  have ra: "(2::rat) powi (?la - 1) \<le> of_int a" "(of_int a :: rat) < 2 powi ?la"
  proof -
    have "(of_int (2 ^ nat (?la - 1)) :: rat) \<le> of_int a" using la(1) by (simp only: of_int_le_iff)
    then show "(2::rat) powi (?la - 1) \<le> of_int a" using pa by (simp add: power_int_def)
    have "(of_int a :: rat) < of_int (2 ^ nat ?la)" using la(2) by (simp only: of_int_less_iff)
    then show "(of_int a :: rat) < 2 powi ?la" using pa by (simp add: power_int_def)
  qed
  have rb: "(2::rat) powi (?lb - 1) \<le> of_int b" "(of_int b :: rat) < 2 powi ?lb"
  proof -
    have "(of_int (2 ^ nat (?lb - 1)) :: rat) \<le> of_int b" using lb(1) by (simp only: of_int_le_iff)
    then show "(2::rat) powi (?lb - 1) \<le> of_int b" using pb by (simp add: power_int_def)
    have "(of_int b :: rat) < of_int (2 ^ nat ?lb)" using lb(2) by (simp only: of_int_less_iff)
    then show "(of_int b :: rat) < 2 powi ?lb" using pb by (simp add: power_int_def)
  qed
  let ?k = "?la - ?lb"
  have bpos: "(0::rat) < of_int b" using b by simp
  have up: "x < 2 powi (?k + 1)"
  proof -
    have "x * of_int b = of_int a" using x bpos by simp
    also have "\<dots> < 2 powi ?la" by (rule ra(2))
    also have "\<dots> = 2 powi (?k + 1) * 2 powi (?lb - 1)"
      by (simp add: power_int_add [symmetric])
    also have "\<dots> \<le> 2 powi (?k + 1) * of_int b"
      by (rule mult_left_mono [OF rb(1)]) simp
    finally show ?thesis using bpos by simp
  qed
  have lo: "2 powi (?k - 1) \<le> x"
  proof -
    have "2 powi (?k - 1) * of_int b \<le> 2 powi (?k - 1) * (2::rat) powi ?lb"
      by (rule mult_left_mono) (use rb(2) in simp_all)
    also have "\<dots> = 2 powi (?la - 1)" by (simp add: power_int_add [symmetric])
    also have "\<dots> \<le> of_int a" by (rule ra(1))
    also have "\<dots> = x * of_int b" using x bpos by simp
    finally show ?thesis using bpos by simp
  qed
  show ?thesis
  proof (cases "2 powi ?k \<le> x")
    case True
    then have "ilog2 x = ?k" by (simp add: ilog2_def q Let_def)
    with True up show ?thesis by simp
  next
    case False
    then have "ilog2 x = ?k - 1" by (simp add: ilog2_def q Let_def)
    with False lo show ?thesis by simp
  qed
qed

lemma fl_pos_def:
  assumes "0 < x"
  shows "fl x = of_int (round_even (x / 2 powi (ilog2 x - 52))) * 2 powi (ilog2 x - 52)"
  using assms by (simp add: fl_def Let_def)

lemma fl_error:
  assumes "0 < x"
  shows "\<bar>fl x - x\<bar> \<le> x / 2 ^ 53"
proof -
  let ?e = "ilog2 x - 52"
  let ?s = "(2::rat) powi ?e"
  let ?m = "x / ?s"
  have s: "0 < ?s" by simp
  have "fl x - x = (of_int (round_even ?m) - ?m) * ?s"
    using s by (simp add: fl_pos_def [OF assms] algebra_simps)
  then have "\<bar>fl x - x\<bar> = \<bar>of_int (round_even ?m) - ?m\<bar> * ?s"
    using s by (simp add: abs_mult)
  also have "\<dots> \<le> (1 / 2) * ?s"
    by (rule mult_right_mono [OF round_even_err]) simp
  also have "\<dots> = 2 powi (ilog2 x) / 2 ^ 53"
  proof -
    have "(2::rat) powi (ilog2 x) = 2 powi (?e + 52)" by simp
    also have "\<dots> = 2 powi ?e * 2 powi 52" by (rule power_int_add) simp
    finally show ?thesis by simp
  qed
  also have "\<dots> \<le> x / 2 ^ 53"
    using ilog2_bounds [OF assms] by (simp add: divide_right_mono)
  finally show ?thesis .
qed

lemma fl_int:
  assumes "0 \<le> n" and "n \<le> 2 ^ 53"
  shows "fl (of_int n) = of_int n"
proof (cases "n = 0")
  case True
  then show ?thesis by (simp add: fl_def)
next
  case False
  with assms have pos: "(0::rat) < of_int n" by simp
  let ?x = "of_int n :: rat"
  let ?e = "ilog2 ?x - 52"
  have le: "?x \<le> 2 powi 53" using assms(2)
    by (metis of_int_le_iff of_int_numeral of_int_power power_int_numeral)
  have "(2::rat) powi (ilog2 ?x) \<le> 2 powi 53"
    using ilog2_bounds [OF pos] le by linarith
  then have k: "ilog2 ?x \<le> 53"
    by (rule power_int_le_imp_le_exp [where x = "2::rat", rotated]) simp_all
  have "\<exists>m. ?x / 2 powi ?e = of_int m"
  proof (cases "ilog2 ?x = 53")
    case True
    then have "2 powi 53 \<le> ?x" using ilog2_bounds [OF pos] by simp
    with le have "?x = 2 powi 53" by simp
    with True have "?x / 2 powi ?e = of_int (2 ^ 52)" by simp
    then show ?thesis by blast
  next
    case False
    with k have "?e \<le> 0" by simp
    then have "(2::rat) powi ?e = 1 / 2 ^ nat (- ?e)"
      by (simp add: power_int_def field_simps)
    then have "?x / 2 powi ?e = of_int (n * 2 ^ nat (- ?e))" by simp
    then show ?thesis by blast
  qed
  then obtain m where m: "?x / 2 powi ?e = of_int m" by blast
  have "fl ?x = of_int m * 2 powi ?e"
    by (simp add: fl_pos_def [OF pos] m round_even_int)
  also have "\<dots> = ?x" using m by (simp add: field_simps)
  finally show ?thesis .
qed

section \<open>Properties of the task store\<close>

subsection \<open>Pagination\<close>

lemma fl_nat: "n < 2 ^ 53 \<Longrightarrow> fl (of_nat n) = of_nat n"
proof -
  assume a: "n < 2 ^ 53"
  have "int n \<le> 2 ^ 53" using a
    by (metis less_imp_le of_nat_le_iff of_nat_numeral of_nat_power)
  from fl_int [OF _ this] show ?thesis by simp
qed

lemma ceiling_fl_quotient:
  assumes "n < 2 ^ 53" and "1 \<le> l" and "l \<le> 2 ^ 53"
  shows "\<lceil>fl (of_nat n / of_int l)\<rceil> = \<lceil>(of_nat n :: rat) / of_int l\<rceil>"
proof (cases "n = 0")
  case True
  then show ?thesis by (simp add: fl_def)
next
  case False
  let ?x = "(of_nat n :: rat) / of_int l"
  let ?c = "\<lceil>?x\<rceil>"
  have lpos: "(0::rat) < of_int l" using assms(2) by simp
  have xpos: "0 < ?x" using False lpos by simp
  have nb: "(of_nat n :: rat) < 2 ^ 53" using assms(1)
    by (metis of_nat_less_iff of_nat_numeral of_nat_power)
  have err: "\<bar>fl ?x - ?x\<bar> < 1 / of_int l"
  proof -
    have "\<bar>fl ?x - ?x\<bar> \<le> ?x / 2 ^ 53" by (rule fl_error [OF xpos])
    also have "\<dots> = (of_nat n / 2 ^ 53) / of_int l" by simp
    also have "\<dots> < 1 / of_int l"
      by (rule divide_strict_right_mono) (use nb lpos in simp_all)
    finally show ?thesis .
  qed
  have c1: "of_int ?c - 1 < ?x" and c2: "?x \<le> of_int ?c" by linarith+
  have lo: "1 / of_int l \<le> ?x - (of_int ?c - 1)"
  proof -
    from c1 have "(of_int ?c - 1) * of_int l < (of_nat n :: rat)"
      using lpos by (simp add: pos_less_divide_eq)
    then have "(of_int ((?c - 1) * l) :: rat) < of_int (int n)" by simp
    then have "(?c - 1) * l < int n" by (simp only: of_int_less_iff)
    then have "(?c - 1) * l + 1 \<le> int n" by simp
    then have "(of_int ((?c - 1) * l + 1) :: rat) \<le> of_int (int n)" by (simp only: of_int_le_iff)
    then have "(of_int ?c - 1) * of_int l + 1 \<le> (of_nat n :: rat)" by simp
    then have "((of_int ?c - 1) * of_int l + 1) / of_int l \<le> ?x"
      using lpos by (simp add: divide_right_mono)
    moreover have "((of_int ?c - 1) * of_int l + 1) / of_int l = (of_int ?c - 1) + 1 / (of_int l :: rat)"
      using lpos by (simp add: add_divide_distrib)
    ultimately show ?thesis by linarith
  qed
  have low: "of_int ?c - 1 < fl ?x" using err lo by linarith
  have up: "fl ?x \<le> of_int ?c"
  proof (cases "?x = of_int ?c")
    case True
    have cn: "0 \<le> ?c" using xpos c2 by linarith
    have "?x \<le> of_nat n" using lpos assms(2)
      by (simp add: pos_divide_le_eq mult_le_cancel_left1)
    then have "(of_int ?c :: rat) \<le> of_int (int n)" using True by simp
    then have "?c \<le> int n" by (simp only: of_int_le_iff)
    moreover have "int n \<le> 2 ^ 53" using assms(1)
      by (metis less_imp_le of_nat_le_iff of_nat_numeral of_nat_power)
    ultimately have "?c \<le> 2 ^ 53" by linarith
    from fl_int [OF cn this] True show ?thesis by simp
  next
    case False
    with c2 have "?x < of_int ?c" by linarith
    then have "(of_nat n :: rat) < of_int ?c * of_int l"
      using lpos by (simp add: pos_divide_less_eq)
    then have "(of_int (int n) :: rat) < of_int (?c * l)" by simp
    then have "int n < ?c * l" by (simp only: of_int_less_iff)
    then have "int n + 1 \<le> ?c * l" by simp
    then have "(of_int (int n + 1) :: rat) \<le> of_int (?c * l)" by (simp only: of_int_le_iff)
    then have "(of_nat n :: rat) + 1 \<le> of_int ?c * of_int l" by simp
    then have "((of_nat n :: rat) + 1) / of_int l \<le> of_int ?c"
      using lpos by (simp add: pos_divide_le_eq)
    moreover have "((of_nat n :: rat) + 1) / of_int l = ?x + 1 / of_int l"
      by (simp add: add_divide_distrib)
    ultimately have "1 / of_int l \<le> of_int ?c - ?x" by linarith
    with err show ?thesis by linarith
  qed
  show ?thesis by (rule ceiling_unique [OF low up])
qed

lemma js_slice_page:
  assumes "1 \<le> p" and "1 \<le> l"
  shows "js_slice xs ((p - 1) * l) (p * l) = take (nat l) (drop (nat ((p - 1) * l)) xs)"
proof -
  have a: "0 \<le> (p - 1) * l" using assms by simp
  have b: "0 \<le> p * l" using assms by simp
  have c: "p * l = (p - 1) * l + l" by (simp add: algebra_simps)
  let ?n = "int (length xs)"
  let ?k = "min ((p - 1) * l) ?n"
  let ?e = "min (p * l) ?n"
  have s: "js_slice xs ((p - 1) * l) (p * l) = take (nat (?e - ?k)) (drop (nat ?k) xs)"
    using a b by (simp add: js_slice_def Let_def)
  show ?thesis
  proof (cases "(p - 1) * l \<le> ?n")
    case True
    then have k: "?k = (p - 1) * l" by simp
    have "take (nat (?e - ?k)) (drop (nat ?k) xs) = take (nat l) (drop (nat ?k) xs)"
    proof (cases "p * l \<le> ?n")
      case True
      then show ?thesis using k c by simp
    next
      case False
      then have "?e = ?n" by simp
      moreover have "length (drop (nat ?k) xs) = nat (?n - ?k)" using k a True by simp
      moreover have "?n - ?k \<le> l" using False c k by linarith
      ultimately show ?thesis using k by (simp add: nat_mono)
    qed
    then show ?thesis using s k by simp
  next
    case False
    then have "length xs \<le> nat ((p - 1) * l)" by linarith
    moreover have "length xs \<le> nat ?k" using False by simp
    ultimately show ?thesis using s by simp
  qed
qed

lemma ToIntegerOrInfinity_int: "0 \<le> k \<Longrightarrow> ToIntegerOrInfinity (of_int k) = k"
  by (simp add: ToIntegerOrInfinity_def)

lemma filter_range:
  "filter (\<lambda>i. a \<le> i \<and> i < b) [0 ..< n] = [a ..< min b n]"
proof (induction n)
  case 0
  then show ?case by simp
next
  case (Suc n)
  show ?case
  proof (cases "a \<le> n \<and> n < b")
    case True
    then have "min b n = n" "min b (Suc n) = Suc n" by simp_all
    with True Suc show ?thesis by simp
  next
    case False
    then have "n < a \<or> b \<le> n" by linarith
    then have "[a ..< min b n] = [a ..< min b (Suc n)]" by (auto simp add: min_def)
    with False Suc show ?thesis by simp
  qed
qed

lemma spec_slice_take_drop:
  assumes "0 \<le> a"
  shows "spec_slice xs a b = take (nat b - nat a) (drop (nat a) xs)"
proof -
  have "(\<lambda>i. a \<le> int i \<and> int i < b) = (\<lambda>i. nat a \<le> i \<and> i < nat b)"
    using assms by (intro ext) linarith
  then have "spec_slice xs a b = map (\<lambda>i. xs ! i) [nat a ..< min (nat b) (length xs)]"
    by (simp add: spec_slice_def filter_range)
  also have "\<dots> = take (nat b - nat a) (drop (nat a) xs)"
  proof (rule map_upt_eqI)
    show "length (take (nat b - nat a) (drop (nat a) xs)) = min (nat b) (length xs) - nat a"
      by (simp add: min_def) arith
    fix i
    assume "i < length (take (nat b - nat a) (drop (nat a) xs))"
    then have "i < nat b - nat a \<and> i < length xs - nat a" by simp
    then have "i < nat b - nat a" "nat a + i < length xs" by linarith+
    then show "take (nat b - nat a) (drop (nat a) xs) ! i = xs ! (nat a + i)" by simp
  qed
  finally show ?thesis .
qed

lemma spec_slice_page:
  assumes "1 \<le> p" and "1 \<le> l"
  shows "spec_slice xs ((p - 1) * l) (p * l) = take (nat l) (drop (nat ((p - 1) * l)) xs)"
proof -
  have a: "0 \<le> (p - 1) * l" using assms by simp
  have "nat (p * l) - nat ((p - 1) * l) = nat l"
  proof -
    have "p * l = (p - 1) * l + l" by (simp add: algebra_simps)
    then show ?thesis using a assms(2) by (simp add: nat_add_distrib)
  qed
  then show ?thesis by (simp add: spec_slice_take_drop [OF a])
qed

lemma fl_large:
  assumes "2 ^ 53 \<le> x"
  shows "2 ^ 53 - 1 \<le> fl x"
proof -
  have pos: "0 < x" using assms by (rule less_le_trans [rotated]) simp
  have "\<bar>fl x - x\<bar> \<le> x / 2 ^ 53" by (rule fl_error [OF pos])
  then have "x - x / 2 ^ 53 \<le> fl x" by linarith
  moreover have "2 ^ 53 - 1 \<le> x - x / 2 ^ 53"
  proof -
    have "x - x / 2 ^ 53 = x * (1 - 1 / 2 ^ 53)" by (simp add: algebra_simps)
    moreover have "2 ^ 53 * (1 - 1 / 2 ^ 53) \<le> x * (1 - 1 / 2 ^ 53 :: rat)"
      by (rule mult_right_mono [OF assms]) simp
    ultimately show ?thesis by simp
  qed
  ultimately show ?thesis by linarith
qed

lemma index_of_double:
  assumes "0 \<le> k" and "n < 2 ^ 32"
  shows "0 \<le> ToIntegerOrInfinity (fl (of_int k)) \<and>
         min (ToIntegerOrInfinity (fl (of_int k))) (int n) = min k (int n)"
proof (cases "k \<le> 2 ^ 53")
  case True
  then have "fl (of_int k) = of_int k" by (rule fl_int [OF assms(1)])
  then show ?thesis using assms(1) by (simp add: ToIntegerOrInfinity_int)
next
  case False
  then have "(2 ^ 53 :: int) \<le> k" by simp
  then have "(of_int (2 ^ 53) :: rat) \<le> of_int k" by (simp only: of_int_le_iff)
  then have "(2 ^ 53 :: rat) \<le> of_int k" by simp
  then have b: "2 ^ 53 - 1 \<le> fl (of_int k)" by (rule fl_large)
  moreover have "(0::rat) \<le> 2 ^ 53 - 1" by simp
  ultimately have nn: "0 \<le> fl (of_int k)" by linarith
  have "(of_int (2 ^ 53 - 1) :: rat) \<le> fl (of_int k)" using b by simp
  then have "2 ^ 53 - 1 \<le> \<lfloor>fl (of_int k)\<rfloor>" by (simp only: le_floor_iff)
  then have big: "2 ^ 53 - 1 \<le> ToIntegerOrInfinity (fl (of_int k))"
    using nn by (simp add: ToIntegerOrInfinity_def)
  have "int n < 2 ^ 32" using assms(2)
    by (metis of_nat_less_iff of_nat_numeral of_nat_power)
  then have "int n \<le> 2 ^ 53 - 1" by simp
  with big False show ?thesis by simp
qed

lemma js_slice_min:
  assumes "0 \<le> s" and "0 \<le> e" and "0 \<le> s'" and "0 \<le> e'"
    and "min s (int (length xs)) = min s' (int (length xs))"
    and "min e (int (length xs)) = min e' (int (length xs))"
  shows "js_slice xs s e = js_slice xs s' e'"
  using assms by (simp add: js_slice_def Let_def)

lemma paginate_safe:
  assumes "1 \<le> p" and "p \<le> 2 ^ 53" and "1 \<le> l" and "l \<le> 2 ^ 53"
    and "length tasks < 2 ^ 32"
  shows "paginate p l tasks =
           (spec_slice tasks ((p - 1) * l) (p * l),
            \<lparr>pg_current = p,
             pg_total = Some \<lceil>(of_nat (length tasks) :: rat) / of_int l\<rceil>,
             pg_count = length (spec_slice tasks ((p - 1) * l) (p * l)),
             pg_totalTasks = length tasks\<rparr>)"
proof -
  have fp: "fl (of_int p) = of_int p" by (rule fl_int [OF _ assms(2)]) (use assms(1) in simp)
  have fl': "fl (of_int l) = of_int l" by (rule fl_int [OF _ assms(4)]) (use assms(3) in simp)
  have fp1: "fl (of_int p - 1) = of_int (p - 1)"
    using fl_int [of "p - 1"] assms(1,2) by simp
  have s0: "0 \<le> (p - 1) * l" and e0: "0 \<le> p * l" using assms(1,3) by simp_all
  note i1 = index_of_double [OF s0 assms(5)]
  note i2 = index_of_double [OF e0 assms(5)]
  have sl: "js_slice tasks (ToIntegerOrInfinity (fl (of_int ((p - 1) * l))))
              (ToIntegerOrInfinity (fl (of_int (p * l))))
            = js_slice tasks ((p - 1) * l) (p * l)"
    by (rule js_slice_min) (use i1 i2 s0 e0 in simp_all)
  have n53: "length tasks < 2 ^ 53"
  proof -
    have "(2::nat) ^ 32 \<le> 2 ^ 53" by simp
    with assms(5) show ?thesis by linarith
  qed
  have l0: "(of_int l :: rat) \<noteq> 0" using assms(3) by simp
  have m1: "of_int (p - 1) * (of_int l :: rat) = of_int ((p - 1) * l)" by simp
  have m2: "of_int p * (of_int l :: rat) = of_int (p * l)" by simp
  show ?thesis
    unfolding paginate_def Let_def fp fl' fp1 m1 m2 sl
      ceiling_fl_quotient [OF n53 assms(3,4)] js_slice_page [OF assms(1,3)]
      spec_slice_page [OF assms(1,3)]
    using l0 by simp
qed

lemma work_docs_pending:
  "findUserTasks no_regexp (database work_docs) initial_tasks ann_again
     \<lparr>f_status = given (q_status pending_page_two), f_priority = given (q_priority pending_page_two),
      f_category = given (q_category pending_page_two), f_search = given (q_search pending_page_two)\<rparr>
   = Inr [doc 14 ''Write plan'' ''Work'' ''pending'' ann 40,
          doc 12 ''Plan week'' ''Work'' ''pending'' ann 20]"
  by (simp add: findUserTasks_def getUserTasks_def compiles_def pending_page_two_def given_def
      database_def mongo_find_def mongo_matches_def work_docs_def doc_def ann_def ann_again_def bob_def)

text \<open>
  C9, as stated: for every page and every page size, the answer is the slice from index
  \<open>(p - 1) * limit\<close> up to, and excluding, \<open>p * limit\<close>, and \<open>current\<close> is \<open>p\<close>.
  The handler passes the two products to \<open>Array.prototype.slice\<close> and computes in doubles.
  With \<open>page=1&limit=-1\<close> on three matching tasks the slice from 0 up to -1 has no
  element, while \<open>slice(0, -1)\<close> returns the first two tasks, with \<open>count\<close> 2 and
  \<open>total\<close> -3. With \<open>page=9007199254740993\<close>, which is \<open>2^53 + 1\<close>, the answer reports
  \<open>current\<close> 9007199254740992.
\<close>

theorem pagination_counterexample:
  "map_option (\<lambda>(ts, pg). (map title ts, pg_count pg, pg_total pg))
     (data (get_tasks no_regexp (database work_docs) initial_tasks ann_again (page_query 1 (- 1))))
     = Some ([Some ''Write plan'', Some ''Plan week''], 2, Some (- 3)) \<and>
   spec_slice [doc 14 ''Write plan'' ''Work'' ''pending'' ann 40,
               doc 12 ''Plan week'' ''Work'' ''pending'' ann 20,
               doc 11 ''Shop'' ''Home'' ''completed'' ann 10] ((1 - 1) * (- 1)) (1 * (- 1)) = [] \<and>
   map_option (\<lambda>(ts, pg). pg_current pg)
     (data (get_tasks no_regexp (database work_docs) initial_tasks ann_again
        (page_query 9007199254740993 1))) = Some 9007199254740992"
proof -
  have f: "findUserTasks no_regexp (database work_docs) initial_tasks ann_again
      (query_filter (page_query p l)) =
      Inr [doc 14 ''Write plan'' ''Work'' ''pending'' ann 40,
           doc 12 ''Plan week'' ''Work'' ''pending'' ann 20,
           doc 11 ''Shop'' ''Home'' ''completed'' ann 10]" for p l
    by (simp add: findUserTasks_def getUserTasks_def compiles_def page_query_def query_filter_def
        given_def database_def mongo_find_def mongo_matches_def work_docs_def doc_def
        ann_def ann_again_def bob_def)
  have qp: "query_page (page_query p l) = p" "query_limit (page_query p l) = l" for p l
    by (simp_all add: query_page_def query_limit_def page_query_def)
  have p1: "(\<lambda>(ts, pg). (map title ts, pg_count pg, pg_total pg))
      (paginate 1 (- 1) [doc 14 ''Write plan'' ''Work'' ''pending'' ann 40,
           doc 12 ''Plan week'' ''Work'' ''pending'' ann 20,
           doc 11 ''Shop'' ''Home'' ''completed'' ann 10])
      = ([Some ''Write plan'', Some ''Plan week''], 2, Some (- 3))"
    by code_simp
  have p2: "pg_current (snd (paginate 9007199254740993 1
          [doc 14 ''Write plan'' ''Work'' ''pending'' ann 40,
           doc 12 ''Plan week'' ''Work'' ''pending'' ann 20,
           doc 11 ''Shop'' ''Home'' ''completed'' ann 10])) = 9007199254740992"
    by code_simp
  have c1: "map_option (\<lambda>(ts, pg). (map title ts, pg_count pg, pg_total pg))
     (data (get_tasks no_regexp (database work_docs) initial_tasks ann_again (page_query 1 (- 1))))
     = Some ([Some ''Write plan'', Some ''Plan week''], 2, Some (- 3))"
    using p1 by (simp add: get_tasks_def f ok_response_def qp)
  have c2: "spec_slice [doc 14 ''Write plan'' ''Work'' ''pending'' ann 40,
               doc 12 ''Plan week'' ''Work'' ''pending'' ann 20,
               doc 11 ''Shop'' ''Home'' ''completed'' ann 10] ((1 - 1) * (- 1)) (1 * (- 1)) = []"
    by (simp add: spec_slice_def)
  have c3: "map_option (\<lambda>(ts, pg). pg_current pg)
     (data (get_tasks no_regexp (database work_docs) initial_tasks ann_again
        (page_query 9007199254740993 1))) = Some 9007199254740992"
    using p2 by (simp add: get_tasks_def f ok_response_def qp split_beta)
  show ?thesis by (rule conjI [OF c1 conjI [OF c2 c3]])
qed

text \<open>
  C9, amended. For a page number and a page size from 1 to \<open>2^53\<close>, \<open>GET /api/tasks\<close>
  answers with the slice, from index \<open>(page - 1) * limit\<close> up to, and excluding,
  \<open>page * limit\<close>, of the list that \<open>findUserTasks\<close> returns for the filter made of the
  status, priority, category and search parameters of the query (an array has fewer than
  \<open>2^32\<close> elements); the pagination object reports the page, the number of pages
  \<open>ceil(n / limit)\<close>, the length of the slice and the number \<open>n\<close> of matching tasks.
\<close>

theorem get_tasks_pagination:
  assumes "1 \<le> query_page q" and "query_page q \<le> 2 ^ 53"
    and "1 \<le> query_limit q" and "query_limit q \<le> 2 ^ 53"
    and "findUserTasks rx M st userId
           \<lparr>f_status = given (q_status q), f_priority = given (q_priority q),
            f_category = given (q_category q), f_search = given (q_search q)\<rparr> = Inr tasks"
    and "length tasks < 2 ^ 32"
  shows "get_tasks rx M st userId q =
           ok_response 200 None
             (Some (spec_slice tasks ((query_page q - 1) * query_limit q)
                      (query_page q * query_limit q),
                    \<lparr>pg_current = query_page q,
                     pg_total = Some \<lceil>(of_nat (length tasks) :: rat) / of_int (query_limit q)\<rceil>,
                     pg_count = length (spec_slice tasks ((query_page q - 1) * query_limit q)
                                  (query_page q * query_limit q)),
                     pg_totalTasks = length tasks\<rparr>))"
  using assms(5)
  by (simp add: get_tasks_def query_filter_def paginate_safe [OF assms(1,2,3,4,6)])

theorem get_tasks_pagination_witness:
  "1 \<le> query_page pending_page_two \<and> query_page pending_page_two \<le> 2 ^ 53 \<and>
   1 \<le> query_limit pending_page_two \<and> query_limit pending_page_two \<le> 2 ^ 53 \<and>
   findUserTasks no_regexp (database work_docs) initial_tasks ann_again
     \<lparr>f_status = given (q_status pending_page_two), f_priority = given (q_priority pending_page_two),
      f_category = given (q_category pending_page_two), f_search = given (q_search pending_page_two)\<rparr>
     = Inr [doc 14 ''Write plan'' ''Work'' ''pending'' ann 40,
            doc 12 ''Plan week'' ''Work'' ''pending'' ann 20] \<and>
   get_tasks no_regexp (database work_docs) initial_tasks ann_again pending_page_two =
     ok_response 200 None
       (Some ([doc 12 ''Plan week'' ''Work'' ''pending'' ann 20],
              \<lparr>pg_current = 2, pg_total = Some 2, pg_count = 1, pg_totalTasks = 2\<rparr>))"
proof -
  have p: "1 \<le> query_page pending_page_two" "query_page pending_page_two \<le> 2 ^ 53"
    and l: "1 \<le> query_limit pending_page_two" "query_limit pending_page_two \<le> 2 ^ 53"
    by (simp_all add: pending_page_two_def query_page_def query_limit_def)
  have n: "length [doc 14 ''Write plan'' ''Work'' ''pending'' ann 40,
                   doc 12 ''Plan week'' ''Work'' ''pending'' ann 20] < 2 ^ 32" by simp
  have v: "query_page pending_page_two = 2" "query_limit pending_page_two = 1"
    by (simp_all add: pending_page_two_def query_page_def query_limit_def)
  have "get_tasks no_regexp (database work_docs) initial_tasks ann_again pending_page_two =
     ok_response 200 None
       (Some ([doc 12 ''Plan week'' ''Work'' ''pending'' ann 20],
              \<lparr>pg_current = 2, pg_total = Some 2, pg_count = 1, pg_totalTasks = 2\<rparr>))"
    using get_tasks_pagination [OF p l work_docs_pending n]
    by (simp add: v spec_slice_def numeral_2_eq_2)
  with p l work_docs_pending show ?thesis by (intro conjI)
qed

subsection \<open>Completion date\<close>

lemma pre_save_completedAt:
  "date_set (completedAt (pre_save now t)) = (status (pre_save now t) = Some ''completed'')"
  by (auto simp add: pre_save_def Let_def)

text \<open>
  C1. After every mutation \<open>completedAt\<close> should be set exactly when the status is
  \<open>completed\<close>. The pre-save hook of \<open>taskSchema\<close> does that for a saved document. When
  \<open>task.save()\<close> throws, \<open>createTask\<close> falls back to the map and copies the body as it
  came: \<open>POST /api/tasks\<close> with the body \<open>{title: 'Done', status: 'completed'}\<close> answers
  201 with a task of status \<open>completed\<close> that has no \<open>completedAt\<close>, and that is the task
  the map holds.
\<close>

theorem fallback_create_skips_completedAt:
  "(let (r, s) = post_task (\<lambda>s. None) offline 100 ann
             (empty_body\<lparr>b_title := Some ''Done'', b_status := Some ''completed''\<rparr>) initial_tasks
    in (http_status r, map_option status (data r), map_option completedAt (data r),
        map (\<lambda>(k, t). (k, status t, completedAt t)) (inMemoryTasks s)))
   = (201, Some (Some ''completed''), Some Undefined, [(1, Some ''completed'', Undefined)])"
  by (simp add: post_task_def createTaskSchema_def common_ok_def offline_def
      opt_ok_def string_ok_def trim_def is_space_def empty_body_def initial_tasks_def createTask_def
      ok_response_def status_values_def Let_def)

subsection \<open>Owner scoping\<close>







subsection \<open>Statistics\<close>



lemma fl_pos:
  assumes "0 < x"
  shows "0 < fl x"
proof -
  have "\<bar>fl x - x\<bar> \<le> x / 2 ^ 53" by (rule fl_error [OF assms])
  then have "x - x / 2 ^ 53 \<le> fl x" by linarith
  moreover have "0 < x - x / 2 ^ 53"
  proof -
    have "x - x / 2 ^ 53 = x * (1 - 1 / 2 ^ 53)" by (simp add: algebra_simps)
    moreover have "0 < x * (1 - 1 / 2 ^ 53 :: rat)" using assms by (simp add: zero_less_mult_iff)
    ultimately show ?thesis by simp
  qed
  ultimately show ?thesis by linarith
qed










subsection \<open>Filters and order of the listing\<close>




















section \<open>Properties of authentication and the credential store\<close>

subsection \<open>The authenticate middleware\<close>

lemma startsWith_split: "startsWith h p \<Longrightarrow> h = p @ drop (length p) h"
  by (metis append_take_drop_id startsWith_def)

lemma authenticate_bearer:
  assumes "token \<noteq> []"
  shows "authenticate L e (Some (''Bearer '' @ token)) =
     (case jwt_verify L token (JWT_SECRET e) of
        Inl JsonWebTokenError \<Rightarrow> deny 401 ''Invalid token.''
      | Inl TokenExpiredError \<Rightarrow> deny 401 ''Token expired.''
      | Inl OtherError \<Rightarrow> deny 500 ''Token verification failed.''
      | Inr decoded \<Rightarrow>
          (case User_findById L (decoded ''id'') of
             Inl err \<Rightarrow> deny 500 ''Token verification failed.''
           | Inr None \<Rightarrow> deny 401 ''User not found or inactive.''
           | Inr (Some u) \<Rightarrow>
               if \<not> truthy (u ''isActive'')
               then deny 401 ''User not found or inactive.''
               else Next (req_user_of u)))"
  using assms by (simp add: authenticate_def given_def startsWith_def)

lemma authenticate_no_bearer:
  assumes "case given authHeader of None \<Rightarrow> True | Some h \<Rightarrow> \<not> startsWith h ''Bearer ''"
  shows "authenticate L e authHeader = deny 401 ''Access denied. No token provided.''"
proof (cases "given authHeader")
  case None
  then show ?thesis by (simp add: authenticate_def)
next
  case (Some h)
  with assms have "\<not> startsWith h ''Bearer ''" by simp
  with Some show ?thesis by (simp add: authenticate_def)
qed

lemma authenticate_empty_token:
  "authenticate L e (Some ''Bearer '') = deny 401 ''Access denied. Invalid token format.''"
  by (simp add: authenticate_def given_def startsWith_def)

lemma header_shape:
  assumes "\<not> (case given authHeader of None \<Rightarrow> True | Some h \<Rightarrow> \<not> startsWith h ''Bearer '')"
  shows "\<exists>token. authHeader = Some (''Bearer '' @ token)"
proof -
  from assms obtain h where g: "given authHeader = Some h" and sw: "startsWith h ''Bearer ''"
    by (cases "given authHeader") auto
  from g have "authHeader = Some h"
    by (cases authHeader) (auto simp add: given_def split: if_splits)
  moreover from sw have "h = ''Bearer '' @ drop (length ''Bearer '') h" by (rule startsWith_split)
  ultimately show ?thesis by blast
qed

lemma authenticate_next_iff:
  "authenticate L e authHeader = Next ru \<longleftrightarrow>
     (\<exists>token decoded u. authHeader = Some (''Bearer '' @ token) \<and> token \<noteq> [] \<and>
        jwt_verify L token (JWT_SECRET e) = Inr decoded \<and>
        User_findById L (decoded ''id'') = Inr (Some u) \<and> truthy (u ''isActive'') \<and>
        ru = req_user_of u)"
proof
  assume a: "authenticate L e authHeader = Next ru"
  have "\<not> (case given authHeader of None \<Rightarrow> True | Some h \<Rightarrow> \<not> startsWith h ''Bearer '')"
  proof
    assume c: "case given authHeader of None \<Rightarrow> True | Some h \<Rightarrow> \<not> startsWith h ''Bearer ''"
    from authenticate_no_bearer [OF c, of L e] a show False by (simp add: deny_def)
  qed
  then obtain token where h: "authHeader = Some (''Bearer '' @ token)"
    using header_shape by blast
  have tk: "token \<noteq> []"
  proof
    assume "token = []"
    with h a authenticate_empty_token [of L e] show False by (simp add: deny_def)
  qed
  note b = a [unfolded h authenticate_bearer [OF tk]]
  obtain decoded where d: "jwt_verify L token (JWT_SECRET e) = Inr decoded"
  proof (cases "jwt_verify L token (JWT_SECRET e)")
    case (Inl err)
    with b show ?thesis by (cases err) (simp_all add: deny_def)
  next
    case (Inr x)
    then show ?thesis using that by simp
  qed
  obtain u where u: "User_findById L (decoded ''id'') = Inr (Some u)"
  proof (cases "User_findById L (decoded ''id'')")
    case (Inl err)
    with b d show ?thesis by (simp add: deny_def)
  next
    case (Inr x)
    with b d show ?thesis using that by (cases x) (simp_all add: deny_def)
  qed
  have "truthy (u ''isActive'')" "ru = req_user_of u"
    using b d u by (simp_all add: deny_def split: if_splits)
  with h tk d u show "\<exists>token decoded u. authHeader = Some (''Bearer '' @ token) \<and> token \<noteq> [] \<and>
        jwt_verify L token (JWT_SECRET e) = Inr decoded \<and>
        User_findById L (decoded ''id'') = Inr (Some u) \<and> truthy (u ''isActive'') \<and>
        ru = req_user_of u" by blast
next
  assume "\<exists>token decoded u. authHeader = Some (''Bearer '' @ token) \<and> token \<noteq> [] \<and>
        jwt_verify L token (JWT_SECRET e) = Inr decoded \<and>
        User_findById L (decoded ''id'') = Inr (Some u) \<and> truthy (u ''isActive'') \<and>
        ru = req_user_of u"
  then obtain token decoded u where h: "authHeader = Some (''Bearer '' @ token)"
    and tk: "token \<noteq> []"
    and rest: "jwt_verify L token (JWT_SECRET e) = Inr decoded"
      "User_findById L (decoded ''id'') = Inr (Some u)" "truthy (u ''isActive'')"
      "ru = req_user_of u" by blast
  have "authenticate L e (Some (''Bearer '' @ token)) = Next ru"
    unfolding authenticate_bearer [OF tk] using rest by simp
  with h show "authenticate L e authHeader = Next ru" by (simp only:)
qed

lemma authenticate_respond:
  assumes "authenticate L e authHeader = Respond r"
  shows "(http_status r = 401 \<or> http_status r = 500) \<and> success r = False"
proof (cases "case given authHeader of None \<Rightarrow> True | Some h \<Rightarrow> \<not> startsWith h ''Bearer ''")
  case True
  from authenticate_no_bearer [OF True, of L e] assms
  have "deny 401 ''Access denied. No token provided.'' = Respond r" by simp
  then show ?thesis by (auto simp add: deny_def)
next
  case False
  then obtain token where h: "authHeader = Some (''Bearer '' @ token)"
    using header_shape by blast
  show ?thesis
  proof (cases "token = []")
    case True
    with h assms authenticate_empty_token [of L e]
    have "deny 401 ''Access denied. Invalid token format.'' = Respond r" by simp
    then show ?thesis by (auto simp add: deny_def)
  next
    case False
    note b = assms [unfolded h authenticate_bearer [OF False]]
    show ?thesis
    proof (cases "jwt_verify L token (JWT_SECRET e)")
      case (Inl err)
      with b show ?thesis by (cases err) (auto simp add: deny_def)
    next
      case (Inr decoded)
      note d = Inr
      show ?thesis
      proof (cases "User_findById L (decoded ''id'')")
        case (Inl err)
        with b d show ?thesis by (auto simp add: deny_def)
      next
        case (Inr x)
        with b d show ?thesis by (cases x) (auto simp add: deny_def split: if_splits)
      qed
    qed
  qed
qed

lemma req_user_of_fields:
  "req_user_of u ''id'' = u ''_id'' \<and> req_user_of u ''email'' = u ''email'' \<and>
   req_user_of u ''name'' = u ''name'' \<and> req_user_of u ''role'' = u ''role'' \<and>
   (\<forall>k. k \<notin> {''id'', ''email'', ''name'', ''role''} \<longrightarrow> req_user_of u k = None)"
  by (simp add: req_user_of_def)

text \<open>
  C5. \<open>authenticate\<close> answers 401 when the Authorization header is absent or is not
  \<open>Bearer\<close> followed by a token; with a token that verifies, it answers 401 when
  \<open>User.findById\<close> finds no user or a user whose \<open>isActive\<close> is false, and otherwise
  passes on with \<open>req.user\<close> holding exactly \<open>id\<close>, \<open>email\<close>, \<open>name\<close> and \<open>role\<close> of
  that user. It passes on in no other case: every other outcome is a 401 or 500 answer.
\<close>

theorem authenticate_contract:
  "((case given authHeader of None \<Rightarrow> True | Some h \<Rightarrow> \<not> startsWith h ''Bearer '') \<longrightarrow>
      authenticate L e authHeader = deny 401 ''Access denied. No token provided.'') \<and>
   (authHeader = Some ''Bearer '' \<longrightarrow>
      authenticate L e authHeader = deny 401 ''Access denied. Invalid token format.'') \<and>
   (token \<noteq> [] \<and> authHeader = Some (''Bearer '' @ token) \<and>
    jwt_verify L token (JWT_SECRET e) = Inr decoded \<longrightarrow>
      (User_findById L (decoded ''id'') = Inr None \<longrightarrow>
         authenticate L e authHeader = deny 401 ''User not found or inactive.'') \<and>
      (User_findById L (decoded ''id'') = Inr (Some u) \<and> \<not> truthy (u ''isActive'') \<longrightarrow>
         authenticate L e authHeader = deny 401 ''User not found or inactive.'') \<and>
      (User_findById L (decoded ''id'') = Inr (Some u) \<and> truthy (u ''isActive'') \<longrightarrow>
         authenticate L e authHeader = Next (req_user_of u))) \<and>
   (req_user_of u ''id'' = u ''_id'' \<and> req_user_of u ''email'' = u ''email'' \<and>
    req_user_of u ''name'' = u ''name'' \<and> req_user_of u ''role'' = u ''role'' \<and>
    (\<forall>k. k \<notin> {''id'', ''email'', ''name'', ''role''} \<longrightarrow> req_user_of u k = None)) \<and>
   (authenticate L e authHeader = Next ru \<longrightarrow>
      (\<exists>token decoded u. authHeader = Some (''Bearer '' @ token) \<and> token \<noteq> [] \<and>
         jwt_verify L token (JWT_SECRET e) = Inr decoded \<and>
         User_findById L (decoded ''id'') = Inr (Some u) \<and> truthy (u ''isActive'') \<and>
         ru = req_user_of u)) \<and>
   (authenticate L e authHeader = Respond r \<longrightarrow>
      (http_status r = 401 \<or> http_status r = 500) \<and> success r = False)"
proof -
  have a: "(case given authHeader of None \<Rightarrow> True | Some h \<Rightarrow> \<not> startsWith h ''Bearer '') \<longrightarrow>
      authenticate L e authHeader = deny 401 ''Access denied. No token provided.''"
    using authenticate_no_bearer by blast
  have b: "authHeader = Some ''Bearer '' \<longrightarrow>
      authenticate L e authHeader = deny 401 ''Access denied. Invalid token format.''"
    using authenticate_empty_token by simp
  have c: "token \<noteq> [] \<and> authHeader = Some (''Bearer '' @ token) \<and>
    jwt_verify L token (JWT_SECRET e) = Inr decoded \<longrightarrow>
      (User_findById L (decoded ''id'') = Inr None \<longrightarrow>
         authenticate L e authHeader = deny 401 ''User not found or inactive.'') \<and>
      (User_findById L (decoded ''id'') = Inr (Some u) \<and> \<not> truthy (u ''isActive'') \<longrightarrow>
         authenticate L e authHeader = deny 401 ''User not found or inactive.'') \<and>
      (User_findById L (decoded ''id'') = Inr (Some u) \<and> truthy (u ''isActive'') \<longrightarrow>
         authenticate L e authHeader = Next (req_user_of u))"
  proof (intro impI)
    assume h: "token \<noteq> [] \<and> authHeader = Some (''Bearer '' @ token) \<and>
      jwt_verify L token (JWT_SECRET e) = Inr decoded"
    then have tk: "token \<noteq> []" and hd: "authHeader = Some (''Bearer '' @ token)"
      and d: "jwt_verify L token (JWT_SECRET e) = Inr decoded" by simp_all
    show "(User_findById L (decoded ''id'') = Inr None \<longrightarrow>
         authenticate L e authHeader = deny 401 ''User not found or inactive.'') \<and>
      (User_findById L (decoded ''id'') = Inr (Some u) \<and> \<not> truthy (u ''isActive'') \<longrightarrow>
         authenticate L e authHeader = deny 401 ''User not found or inactive.'') \<and>
      (User_findById L (decoded ''id'') = Inr (Some u) \<and> truthy (u ''isActive'') \<longrightarrow>
         authenticate L e authHeader = Next (req_user_of u))"
      unfolding hd authenticate_bearer [OF tk] d by simp
  qed
  have d: "authenticate L e authHeader = Next ru \<longrightarrow>
      (\<exists>token decoded u. authHeader = Some (''Bearer '' @ token) \<and> token \<noteq> [] \<and>
         jwt_verify L token (JWT_SECRET e) = Inr decoded \<and>
         User_findById L (decoded ''id'') = Inr (Some u) \<and> truthy (u ''isActive'') \<and>
         ru = req_user_of u)"
  proof
    assume x: "authenticate L e authHeader = Next ru"
    from x [unfolded authenticate_next_iff]
    show "\<exists>token decoded u. authHeader = Some (''Bearer '' @ token) \<and> token \<noteq> [] \<and>
         jwt_verify L token (JWT_SECRET e) = Inr decoded \<and>
         User_findById L (decoded ''id'') = Inr (Some u) \<and> truthy (u ''isActive'') \<and>
         ru = req_user_of u" .
  qed
  have f: "authenticate L e authHeader = Respond r \<longrightarrow>
      (http_status r = 401 \<or> http_status r = 500) \<and> success r = False"
    using authenticate_respond [of L e authHeader r] by (intro impI)
  note g = req_user_of_fields [of u]
  show ?thesis
    by (rule conjI [OF a conjI [OF b conjI [OF c conjI [OF g conjI [OF d f]]]]])
qed

theorem authenticate_contract_witness:
  "authenticate demo_lib demo_env None = deny 401 ''Access denied. No token provided.'' \<and>
   authenticate demo_lib demo_env (Some ''Basic signed'')
     = deny 401 ''Access denied. No token provided.'' \<and>
   authenticate demo_lib demo_env (Some ''Bearer '')
     = deny 401 ''Access denied. Invalid token format.'' \<and>
   authenticate (demo_lib\<lparr>User_findById := \<lambda>i. Inr None\<rparr>) demo_env (Some ''Bearer signed'')
     = deny 401 ''User not found or inactive.'' \<and>
   authenticate (demo_lib\<lparr>User_findById := \<lambda>i. Inr (Some (demo_user(''isActive'' \<mapsto> JBool False)))\<rparr>)
       demo_env (Some ''Bearer signed'')
     = deny 401 ''User not found or inactive.'' \<and>
   authenticate demo_lib demo_env (Some ''Bearer signed'') = Next (req_user_of demo_user) \<and>
   map (req_user_of demo_user) [''id'', ''email'', ''name'', ''role'', ''password'', ''isActive'']
     = [Some (JNum 1), Some (JStr ''ann@x.com''), Some (JStr ''Ann''), Some (JStr ''user''), None, None] \<and>
   authenticate demo_lib demo_env (Some ''Bearer forged'') = deny 401 ''Invalid token.''"
proof -
  let ?d = "Map.empty(''id'' \<mapsto> JNum 1)"
  let ?off = "demo_user(''isActive'' \<mapsto> JBool False)"
  let ?L4 = "demo_lib\<lparr>User_findById := \<lambda>i. Inr None\<rparr>"
  let ?L5 = "demo_lib\<lparr>User_findById := \<lambda>i. Inr (Some ?off)\<rparr>"
  note c1 = authenticate_contract [THEN conjunct1, THEN mp]
  note c2 = authenticate_contract [THEN conjunct2, THEN conjunct1, THEN mp]
  note c3 = authenticate_contract [THEN conjunct2, THEN conjunct2, THEN conjunct1, THEN mp]
  have n0: "case given None of None \<Rightarrow> True | Some h \<Rightarrow> \<not> startsWith h ''Bearer ''"
    by (simp add: given_def)
  have n1: "case given (Some ''Basic signed'') of None \<Rightarrow> True
            | Some h \<Rightarrow> \<not> startsWith h ''Bearer ''"
    by (simp add: given_def startsWith_def)
  have t1: "authenticate demo_lib demo_env None = deny 401 ''Access denied. No token provided.''"
    by (rule c1 [OF n0])
  have t2: "authenticate demo_lib demo_env (Some ''Basic signed'')
      = deny 401 ''Access denied. No token provided.''"
    by (rule c1 [OF n1])
  have t3: "authenticate demo_lib demo_env (Some ''Bearer '')
      = deny 401 ''Access denied. Invalid token format.''"
    by (rule c2 [OF refl])
  have p4: "''signed'' \<noteq> [] \<and> Some ''Bearer signed'' = Some (''Bearer '' @ ''signed'') \<and>
      jwt_verify ?L4 ''signed'' (JWT_SECRET demo_env) = Inr ?d"
    by (simp add: demo_lib_def)
  have f4: "User_findById ?L4 (?d ''id'') = Inr None" by simp
  have t4: "authenticate ?L4 demo_env (Some ''Bearer signed'') = deny 401 ''User not found or inactive.''"
    by (rule c3 [OF p4, THEN conjunct1, THEN mp, OF f4])
  have p5: "''signed'' \<noteq> [] \<and> Some ''Bearer signed'' = Some (''Bearer '' @ ''signed'') \<and>
      jwt_verify ?L5 ''signed'' (JWT_SECRET demo_env) = Inr ?d"
    by (simp add: demo_lib_def)
  have f5: "User_findById ?L5 (?d ''id'') = Inr (Some ?off) \<and> \<not> truthy (?off ''isActive'')"
    by simp
  have t5: "authenticate ?L5 demo_env (Some ''Bearer signed'') = deny 401 ''User not found or inactive.''"
    by (rule c3 [OF p5, THEN conjunct2, THEN conjunct1, THEN mp, OF f5])
  have p6: "''signed'' \<noteq> [] \<and> Some ''Bearer signed'' = Some (''Bearer '' @ ''signed'') \<and>
      jwt_verify demo_lib ''signed'' (JWT_SECRET demo_env) = Inr ?d"
    by (simp add: demo_lib_def)
  have f6: "User_findById demo_lib (?d ''id'') = Inr (Some demo_user) \<and>
      truthy (demo_user ''isActive'')"
    by (simp add: demo_lib_def demo_user_def)
  have t6: "authenticate demo_lib demo_env (Some ''Bearer signed'') = Next (req_user_of demo_user)"
    by (rule c3 [OF p6, THEN conjunct2, THEN conjunct2, THEN mp, OF f6])
  have t7: "map (req_user_of demo_user)
      [''id'', ''email'', ''name'', ''role'', ''password'', ''isActive'']
     = [Some (JNum 1), Some (JStr ''ann@x.com''), Some (JStr ''Ann''), Some (JStr ''user''), None, None]"
    by (simp add: req_user_of_def demo_user_def)
  have t8: "authenticate demo_lib demo_env (Some ''Bearer forged'') = deny 401 ''Invalid token.''"
    by (simp add: authenticate_def given_def startsWith_def demo_lib_def)
  show ?thesis
    by (rule conjI [OF t1 conjI [OF t2 conjI [OF t3 conjI [OF t4 conjI [OF t5
          conjI [OF t6 conjI [OF t7 t8]]]]]]])
qed

end
